theory Spec2Isabelle
  imports Complex_Main
begin

section \<open>Smart Climate: the dual-stage thermostat of \<^verbatim>\<open>climate.py\<close>\<close>

text \<open>
  The embedding follows \<^verbatim>\<open>custom_components/smart_climate/climate.py\<close>.
  Python floats are modelled as exact reals (no rounding, no NaN, no infinities); a
  Python value that may be \<^verbatim>\<open>None\<close> is an \<open>option\<close>.
  The attributes that \<^verbatim>\<open>SmartClimate.__init__\<close> copies from its arguments and that
  no method assigns afterwards form the record \<open>config\<close>; the attributes that the
  methods assign form the record \<open>controller\<close>.
\<close>

subsection \<open>Data\<close>

text \<open>
  The three members of \<^verbatim>\<open>HVACMode\<close> that the controller commands or stores in its
  last-commanded fields. (\<^verbatim>\<open>HVACMode.AUTO\<close> only appears as the constant mode the entity
  reports about itself.)
\<close>

datatype hvac_mode = OFF | HEAT | COOL

text \<open>
  A preset table is a Python dict from preset name to a number or \<^verbatim>\<open>None\<close>:
  the outer \<open>option\<close> is key membership, the inner one the \<^verbatim>\<open>None\<close> value.
\<close>

type_synonym presets = "string \<Rightarrow> real option option"

definition DEFAULT_HEATING_PRESETS :: presets where
  "DEFAULT_HEATING_PRESETS = map_of
     [(''none'', None), (''eco'', Some 15), (''away'', Some 15), (''sleep'', Some 15),
      (''comfort'', Some 20), (''boost'', Some 24), (''home'', Some 18),
      (''activity'', Some 18)]"

definition DEFAULT_COOLING_PRESETS :: presets where
  "DEFAULT_COOLING_PRESETS = map_of
     [(''none'', None), (''eco'', None), (''away'', None), (''sleep'', Some 30),
      (''comfort'', Some 24), (''boost'', Some 22), (''home'', Some 26),
      (''activity'', Some 26)]"

text \<open>
  The constructor arguments (the template \<^verbatim>\<open>mode_sync_template\<close> is left out: only
  \<^verbatim>\<open>_evaluate_mode_sync\<close> reads it, and no method calls that one).
\<close>

record config =
  main_climate :: string
  secondary_climate :: "string option"
  sensor :: string
  outdoor_sensor :: "string option"
  primary_threshold :: real
  secondary_threshold :: real
  heating_presets :: presets
  cooling_presets :: presets
  outdoor_hot_threshold :: real
  outdoor_cold_threshold :: real
  min_runtime :: int
  primary_offset :: real
  secondary_offset :: real

text \<open>The mutable attributes of a \<^verbatim>\<open>SmartClimate\<close> instance. Times are in seconds.\<close>

record controller =
  last_switch_time :: real
  last_main_mode :: hvac_mode
  last_main_temp :: "real option"
  last_secondary_mode :: hvac_mode
  last_secondary_temp :: "real option"
  target_temperature :: "real option"
  current_temperature :: "real option"
  preset_mode :: string

text \<open>
  A service call \<^verbatim>\<open>hass.services.async_call("climate", ...)\<close>. Its \<^verbatim>\<open>entity_id\<close> is
  either \<^verbatim>\<open>effective_main_device\<close> or \<^verbatim>\<open>effective_secondary_device\<close>; the model
  records which of the two it is.
\<close>

datatype device = Main | Secondary

datatype service_call =
  Set_temperature (call_device: device) real
| Set_hvac_mode (call_device: device) hvac_mode

text \<open>
  What the host offers during one handler invocation: the state machine
  (\<^verbatim>\<open>hass.states.get(id)\<close> is \<open>None\<close> for an unknown entity, otherwise the state
  string), Python's builtin \<^verbatim>\<open>float\<close> on strings (\<open>None\<close> when it raises),
  the clock \<^verbatim>\<open>now()\<close>, and which service calls raise an exception.
\<close>

record hass =
  states :: "string \<Rightarrow> string option"
  to_float :: "string \<Rightarrow> real option"
  now :: real
  call_raises :: "service_call \<Rightarrow> bool"

text \<open>
  A handler in progress: the instance, the service calls attempted so far (oldest first)
  and whether an exception is propagating. The assignments made before an exception
  stay, as in Python.
\<close>

record run =
  self :: controller
  calls :: "service_call list"
  raised :: bool

definition start :: "controller \<Rightarrow> run" where
  "start s = \<lparr>self = s, calls = [], raised = False\<rparr>"

text \<open>Statement sequencing: the second statement runs unless the first one raised.\<close>

definition andthen :: "(run \<Rightarrow> run) \<Rightarrow> (run \<Rightarrow> run) \<Rightarrow> run \<Rightarrow> run" where
  "andthen f g r = (let r' = f r in if raised r' then r' else g r')"

definition assign :: "(controller \<Rightarrow> controller) \<Rightarrow> run \<Rightarrow> run" where
  "assign f r = r\<lparr>self := f (self r)\<rparr>"

definition async_call :: "hass \<Rightarrow> service_call \<Rightarrow> run \<Rightarrow> run" where
  "async_call h c r = r\<lparr>calls := calls r @ [c], raised := call_raises h c\<rparr>"

subsection \<open>Construction\<close>

text \<open>\<^verbatim>\<open>SmartClimate.__init__\<close>, with \<open>now0\<close> the clock at construction.\<close>

definition init :: "config \<Rightarrow> real \<Rightarrow> controller" where
  "init cfg now0 =
     \<lparr>last_switch_time = now0 - real_of_int (min_runtime cfg),
      last_main_mode = OFF,
      last_main_temp = None,
      last_secondary_mode = OFF,
      last_secondary_temp = None,
      target_temperature = None,
      current_temperature = None,
      preset_mode = ''eco''\<rparr>"

subsection \<open>Reading a sensor\<close>

text \<open>
  The pattern the source repeats at each sensor read: the entity must exist, its state
  must be neither \<^verbatim>\<open>"unknown"\<close> nor \<^verbatim>\<open>"unavailable"\<close>, and \<^verbatim>\<open>float\<close> must accept
  it; every failure is logged and yields no value.
\<close>

definition read_temperature :: "hass \<Rightarrow> string \<Rightarrow> real option" where
  "read_temperature h entity =
     (case states h entity of
        None \<Rightarrow> None
      | Some st \<Rightarrow>
          if st = ''unknown'' \<or> st = ''unavailable'' then None else to_float h st)"

text \<open>Python truthiness of an optional string (\<^verbatim>\<open>if self._outdoor_sensor:\<close>).\<close>

definition truthy :: "string option \<Rightarrow> bool" where
  "truthy x = (case x of None \<Rightarrow> False | Some e \<Rightarrow> e \<noteq> [])"

subsection \<open>The device commands\<close>

definition set_effective_main_temperature :: "hass \<Rightarrow> real \<Rightarrow> run \<Rightarrow> run" where
  "set_effective_main_temperature h temperature =
     async_call h (Set_temperature Main temperature)"

definition set_effective_main_hvac_mode :: "hass \<Rightarrow> hvac_mode \<Rightarrow> run \<Rightarrow> run" where
  "set_effective_main_hvac_mode h mode = async_call h (Set_hvac_mode Main mode)"

definition set_effective_secondary ::
  "config \<Rightarrow> hass \<Rightarrow> hvac_mode \<Rightarrow> real option \<Rightarrow> run \<Rightarrow> run" where
  "set_effective_secondary cfg h mode temperature =
     (if secondary_climate cfg = None then (\<lambda>r. r)
      else if mode \<noteq> OFF \<and> temperature \<noteq> None
      then andthen (async_call h (Set_temperature Secondary (the temperature)))
                   (async_call h (Set_hvac_mode Secondary mode))
      else async_call h (Set_hvac_mode Secondary mode))"

subsection \<open>The control decision (lines 316 to 346 and 371 to 373)\<close>

text \<open>The outdoor test of the cooling branch.\<close>

definition cooling_mode :: "config \<Rightarrow> hass \<Rightarrow> hvac_mode" where
  "cooling_mode cfg h =
     (if truthy (outdoor_sensor cfg) then
        (case read_temperature h (the (outdoor_sensor cfg)) of
           None \<Rightarrow> OFF
         | Some outdoor_temp \<Rightarrow>
             if outdoor_temp \<ge> outdoor_hot_threshold cfg then COOL else OFF)
      else COOL)"

text \<open>The pair \<^verbatim>\<open>(effective_mode, diff)\<close> for a current and a target temperature.\<close>

definition effective_mode_diff :: "config \<Rightarrow> hass \<Rightarrow> real \<Rightarrow> real \<Rightarrow> hvac_mode \<times> real" where
  "effective_mode_diff cfg h cur tgt =
     (if cur < tgt - primary_threshold cfg then (HEAT, tgt - cur)
      else if cur > tgt + primary_threshold cfg then (cooling_mode cfg h, cur - tgt)
      else (OFF, 0))"

definition secondary_effective_mode :: "config \<Rightarrow> hvac_mode \<Rightarrow> real \<Rightarrow> hvac_mode" where
  "secondary_effective_mode cfg effective_mode diff =
     (if diff > secondary_threshold cfg then effective_mode else OFF)"

definition secondary_temp :: "config \<Rightarrow> real \<Rightarrow> hvac_mode \<Rightarrow> real option" where
  "secondary_temp cfg tgt sec_mode =
     (if sec_mode \<noteq> OFF then Some (tgt + secondary_offset cfg) else None)"

subsection \<open>The commit steps of \<^verbatim>\<open>_apply_temperature\<close>\<close>

text \<open>Lines 306 to 311: no target temperature, so the devices are turned off.\<close>

definition turn_off_main :: "hass \<Rightarrow> run \<Rightarrow> run" where
  "turn_off_main h r =
     (if last_main_mode (self r) \<noteq> OFF
      then andthen (set_effective_main_hvac_mode h OFF)
                   (assign (\<lambda>s. s\<lparr>last_main_mode := OFF\<rparr>)) r
      else r)"

definition turn_off_secondary :: "config \<Rightarrow> hass \<Rightarrow> run \<Rightarrow> run" where
  "turn_off_secondary cfg h r =
     (if secondary_climate cfg \<noteq> None \<and> last_secondary_mode (self r) \<noteq> OFF
      then andthen (set_effective_secondary cfg h OFF None)
                   (assign (\<lambda>s. s\<lparr>last_secondary_mode := OFF\<rparr>)) r
      else r)"

text \<open>Lines 354 to 358.\<close>

definition signal_main_mode :: "hass \<Rightarrow> hvac_mode \<Rightarrow> run \<Rightarrow> run" where
  "signal_main_mode h effective_mode r =
     (if effective_mode \<noteq> last_main_mode (self r)
      then andthen (set_effective_main_hvac_mode h effective_mode)
                   (assign (\<lambda>s. s\<lparr>last_main_mode := effective_mode\<rparr>)) r
      else r)"

text \<open>Lines 360 to 367.\<close>

definition signal_main_temperature :: "config \<Rightarrow> hass \<Rightarrow> hvac_mode \<Rightarrow> run \<Rightarrow> run" where
  "signal_main_temperature cfg h effective_mode r =
     (if effective_mode \<noteq> OFF \<and> target_temperature (self r) \<noteq> None then
        (let main_target = the (target_temperature (self r)) + primary_offset cfg in
         if last_main_temp (self r) \<noteq> Some main_target
         then andthen (set_effective_main_temperature h main_target)
                      (assign (\<lambda>s. s\<lparr>last_main_temp := Some main_target\<rparr>)) r
         else r)
      else r)"

text \<open>Lines 370 to 379.\<close>

definition signal_secondary :: "config \<Rightarrow> hass \<Rightarrow> hvac_mode \<Rightarrow> real \<Rightarrow> run \<Rightarrow> run" where
  "signal_secondary cfg h effective_mode diff r =
     (if secondary_climate cfg \<noteq> None then
        (let sec_mode = secondary_effective_mode cfg effective_mode diff;
             sec_temp = secondary_temp cfg (the (target_temperature (self r))) sec_mode
         in if sec_mode \<noteq> last_secondary_mode (self r) \<or> sec_temp \<noteq> last_secondary_temp (self r)
            then andthen (set_effective_secondary cfg h sec_mode sec_temp)
                         (assign (\<lambda>s. s\<lparr>last_secondary_mode := sec_mode,
                                          last_secondary_temp := sec_temp\<rparr>)) r
            else r)
      else r)"

text \<open>Lines 381 and 382.\<close>

definition record_switch_time :: "hvac_mode \<Rightarrow> real \<Rightarrow> run \<Rightarrow> run" where
  "record_switch_time effective_mode now_time r =
     (if effective_mode \<noteq> OFF then assign (\<lambda>s. s\<lparr>last_switch_time := now_time\<rparr>) r else r)"

subsection \<open>\<^verbatim>\<open>_apply_temperature\<close>: one evaluate and commit cycle\<close>

definition apply_temperature :: "config \<Rightarrow> hass \<Rightarrow> run \<Rightarrow> run" where
  "apply_temperature cfg h r =
     (case read_temperature h (sensor cfg) of
        None \<Rightarrow> r
      | Some cur \<Rightarrow>
          (let r = assign (\<lambda>s. s\<lparr>current_temperature := Some cur\<rparr>) r in
           case target_temperature (self r) of
             None \<Rightarrow> andthen (turn_off_main h) (turn_off_secondary cfg h) r
           | Some tgt \<Rightarrow>
               (let now_time = now h;
                    effective_mode = fst (effective_mode_diff cfg h cur tgt);
                    diff = snd (effective_mode_diff cfg h cur tgt)
                in andthen (signal_main_mode h effective_mode)
                  (andthen (signal_main_temperature cfg h effective_mode)
                  (andthen (signal_secondary cfg h effective_mode diff)
                           (record_switch_time effective_mode now_time))) r)))"

subsection \<open>The entry points\<close>

text \<open>\<^verbatim>\<open>async_set_temperature\<close>: a manual setpoint.\<close>

definition async_set_temperature :: "config \<Rightarrow> hass \<Rightarrow> real option \<Rightarrow> controller \<Rightarrow> run" where
  "async_set_temperature cfg h temperature s =
     (case temperature of
        None \<Rightarrow> start s
      | Some t \<Rightarrow> apply_temperature cfg h (start (s\<lparr>target_temperature := Some t\<rparr>)))"

text \<open>
  Lines 270 to 286 of \<^verbatim>\<open>async_set_preset_mode\<close>: the target a recognised preset
  resolves to. The last branch (no assignment, the target stays \<open>old\<close>) is not reached
  for a recognised preset.
\<close>

definition preset_target :: "config \<Rightarrow> string \<Rightarrow> real option \<Rightarrow> real option \<Rightarrow> real option" where
  "preset_target cfg p current_temp old =
     (if current_temp \<noteq> None \<and> heating_presets cfg p \<noteq> None \<and> cooling_presets cfg p \<noteq> None then
        (let heating_target = the (heating_presets cfg p);
             cooling_target = the (cooling_presets cfg p)
         in if heating_target = None then cooling_target
            else if cooling_target = None then heating_target
            else (let midpoint = (the heating_target + the cooling_target) / 2
                  in if the current_temp < midpoint then heating_target else cooling_target))
      else if heating_presets cfg p \<noteq> None then the (heating_presets cfg p)
      else if cooling_presets cfg p \<noteq> None then the (cooling_presets cfg p)
      else old)"

definition async_set_preset_mode :: "config \<Rightarrow> hass \<Rightarrow> string \<Rightarrow> controller \<Rightarrow> run" where
  "async_set_preset_mode cfg h p s =
     (if heating_presets cfg p = None \<and> cooling_presets cfg p = None then start s
      else
        (let current_temp = read_temperature h (sensor cfg);
             target = preset_target cfg p current_temp (target_temperature s)
         in apply_temperature cfg h
              (start (s\<lparr>preset_mode := p, target_temperature := target\<rparr>))))"

text \<open>\<^verbatim>\<open>_periodic_update\<close>: the 60 second tick.\<close>

definition periodic_update :: "config \<Rightarrow> hass \<Rightarrow> controller \<Rightarrow> run" where
  "periodic_update cfg h s = apply_temperature cfg h (start s)"

text \<open>\<^verbatim>\<open>async_update\<close>: refreshes the displayed temperature only.\<close>

definition async_update :: "config \<Rightarrow> hass \<Rightarrow> controller \<Rightarrow> run" where
  "async_update cfg h s =
     (case read_temperature h (sensor cfg) of
        None \<Rightarrow> start s
      | Some cur \<Rightarrow> start (s\<lparr>current_temperature := Some cur\<rparr>))"

subsection \<open>Input sequences\<close>

text \<open>
  The host invokes one handler at a time, each to completion. A handler that raised
  does not keep the host from invoking the next one; the instance keeps the assignments
  made before the exception.
\<close>

datatype event =
  Tick
| Manual_setpoint "real option"
| Preset_change string
| Update

fun handle :: "config \<Rightarrow> hass \<Rightarrow> event \<Rightarrow> controller \<Rightarrow> run" where
  "handle cfg h Tick s = periodic_update cfg h s"
| "handle cfg h (Manual_setpoint t) s = async_set_temperature cfg h t s"
| "handle cfg h (Preset_change p) s = async_set_preset_mode cfg h p s"
| "handle cfg h Update s = async_update cfg h s"

text \<open>The instance after a sequence of inputs, and every service call attempted on the way.\<close>

fun run_events :: "config \<Rightarrow> (hass \<times> event) list \<Rightarrow> controller \<Rightarrow> controller \<times> service_call list" where
  "run_events cfg [] s = (s, [])"
| "run_events cfg (he # es) s =
     (let r = handle cfg (fst he) (snd he) s;
          rest = run_events cfg es (self r)
      in (fst rest, calls r @ snd rest))"

subsection \<open>Concrete scenarios\<close>

text \<open>
  The configuration that the platform schema's defaults give, with a secondary device and
  without an outdoor sensor.
\<close>

definition example_config :: config where
  "example_config =
     \<lparr>main_climate = ''climate.main'',
      secondary_climate = Some ''climate.aux'',
      sensor = ''sensor.indoor'',
      outdoor_sensor = None,
      primary_threshold = 1,
      secondary_threshold = 2,
      heating_presets = DEFAULT_HEATING_PRESETS,
      cooling_presets = DEFAULT_COOLING_PRESETS,
      outdoor_hot_threshold = 24,
      outdoor_cold_threshold = 20,
      min_runtime = 300,
      primary_offset = 1,
      secondary_offset = 0\<rparr>"

text \<open>The values of Python's \<^verbatim>\<open>float\<close> on the state strings the scenarios use.\<close>

definition example_float :: "string \<Rightarrow> real option" where
  "example_float = map_of
     [(''18'', 18), (''20'', 20), (''21'', 21), (''22'', 22), (''23'', 23),
      (''23.5'', 23.5), (''25'', 25), (''26'', 26)]"

text \<open>
  A host whose indoor and outdoor sensors have the given states (\<open>None\<close>: no such
  entity), and whose service calls all succeed.
\<close>

definition example_hass :: "string option \<Rightarrow> string option \<Rightarrow> hass" where
  "example_hass indoor outdoor =
     \<lparr>states = (\<lambda>e. if e = ''sensor.indoor'' then indoor
                     else if e = ''sensor.outdoor'' then outdoor else None),
      to_float = example_float,
      now = 0,
      call_raises = (\<lambda>c. False)\<rparr>"

text \<open>
  The instance after a manual setpoint of 22 degrees at an indoor reading of 18: both
  devices heat (lemma \<open>heating_state_reached\<close> below).
\<close>

definition heating_state :: controller where
  "heating_state =
     \<lparr>last_switch_time = 0,
      last_main_mode = HEAT,
      last_main_temp = Some 23,
      last_secondary_mode = HEAT,
      last_secondary_temp = Some 22,
      target_temperature = Some 22,
      current_temperature = Some 18,
      preset_mode = ''eco''\<rparr>"

text \<open>
  The same instance after the preset \<^verbatim>\<open>none\<close> was selected while the indoor sensor
  was unavailable (lemma \<open>stranded_state_reached\<close> below): no target, both devices
  still heating.
\<close>

definition stranded_state :: controller where
  "stranded_state = heating_state\<lparr>target_temperature := None, preset_mode := ''none''\<rparr>"

text \<open>
  A host with an indoor reading of 18 on which exactly the service call \<open>c0\<close> raises.
\<close>

definition failing_hass :: "service_call \<Rightarrow> hass" where
  "failing_hass c0 = (example_hass (Some ''18'') None)\<lparr>call_raises := (\<lambda>c. c = c0)\<rparr>"

subsection \<open>Projections used to compare two runs\<close>

text \<open>A run with the last switch time blanked.\<close>

definition no_time :: "run \<Rightarrow> run" where
  "no_time r = r\<lparr>self := (self r)\<lparr>last_switch_time := 0\<rparr>\<rparr>"

text \<open>A run with the two last-commanded fields of the secondary device overwritten.\<close>

definition with_secondary :: "hvac_mode \<Rightarrow> real option \<Rightarrow> run \<Rightarrow> run" where
  "with_secondary m t r =
     r\<lparr>self := (self r)\<lparr>last_secondary_mode := m, last_secondary_temp := t\<rparr>\<rparr>"

text \<open>Every service call attempted so far addresses the main device.\<close>

definition main_only :: "run \<Rightarrow> bool" where
  "main_only r = list_all (\<lambda>c. call_device c = Main) (calls r)"

section \<open>Basic facts\<close>

lemma andthen_if: "andthen f g r = (if raised (f r) then f r else g (f r))"
  by (simp add: andthen_def Let_def)

lemma andthen_keeps:
  assumes "\<And>r. P (f r) = P r" and "\<And>r. P (g r) = P r"
  shows "P (andthen f g r) = P r"
  using assms by (simp add: andthen_if)

lemma apply_temperature_unreadable:
  "read_temperature h (sensor cfg) = None \<Longrightarrow> apply_temperature cfg h r = r"
  by (simp add: apply_temperature_def)

subsection \<open>Each commit step, written out\<close>

lemma set_effective_secondary_eq:
  "set_effective_secondary cfg h m t r =
     (if secondary_climate cfg = None then r
      else if m \<noteq> OFF \<and> t \<noteq> None then
        (if call_raises h (Set_temperature Secondary (the t))
         then r\<lparr>calls := calls r @ [Set_temperature Secondary (the t)], raised := True\<rparr>
         else r\<lparr>calls := calls r @ [Set_temperature Secondary (the t), Set_hvac_mode Secondary m],
                 raised := call_raises h (Set_hvac_mode Secondary m)\<rparr>)
      else r\<lparr>calls := calls r @ [Set_hvac_mode Secondary m],
              raised := call_raises h (Set_hvac_mode Secondary m)\<rparr>)"
  by (simp add: set_effective_secondary_def andthen_if async_call_def)

lemma turn_off_main_eq:
  "turn_off_main h r =
     (if last_main_mode (self r) = OFF then r
      else if call_raises h (Set_hvac_mode Main OFF)
      then r\<lparr>calls := calls r @ [Set_hvac_mode Main OFF], raised := True\<rparr>
      else r\<lparr>self := (self r)\<lparr>last_main_mode := OFF\<rparr>,
             calls := calls r @ [Set_hvac_mode Main OFF], raised := False\<rparr>)"
  by (simp add: turn_off_main_def andthen_if assign_def set_effective_main_hvac_mode_def
      async_call_def)

lemma turn_off_secondary_eq:
  "turn_off_secondary cfg h r =
     (if secondary_climate cfg = None \<or> last_secondary_mode (self r) = OFF then r
      else if call_raises h (Set_hvac_mode Secondary OFF)
      then r\<lparr>calls := calls r @ [Set_hvac_mode Secondary OFF], raised := True\<rparr>
      else r\<lparr>self := (self r)\<lparr>last_secondary_mode := OFF\<rparr>,
             calls := calls r @ [Set_hvac_mode Secondary OFF], raised := False\<rparr>)"
  by (simp add: turn_off_secondary_def andthen_if assign_def set_effective_secondary_eq)

lemma signal_main_mode_eq:
  "signal_main_mode h m r =
     (if m = last_main_mode (self r) then r
      else if call_raises h (Set_hvac_mode Main m)
      then r\<lparr>calls := calls r @ [Set_hvac_mode Main m], raised := True\<rparr>
      else r\<lparr>self := (self r)\<lparr>last_main_mode := m\<rparr>,
             calls := calls r @ [Set_hvac_mode Main m], raised := False\<rparr>)"
  by (simp add: signal_main_mode_def andthen_if assign_def set_effective_main_hvac_mode_def
      async_call_def)

lemma signal_main_temperature_eq:
  "signal_main_temperature cfg h m r =
     (case target_temperature (self r) of
        None \<Rightarrow> r
      | Some tgt \<Rightarrow>
         if m = OFF \<or> last_main_temp (self r) = Some (tgt + primary_offset cfg) then r
         else if call_raises h (Set_temperature Main (tgt + primary_offset cfg))
         then r\<lparr>calls := calls r @ [Set_temperature Main (tgt + primary_offset cfg)],
                 raised := True\<rparr>
         else r\<lparr>self := (self r)\<lparr>last_main_temp := Some (tgt + primary_offset cfg)\<rparr>,
                 calls := calls r @ [Set_temperature Main (tgt + primary_offset cfg)],
                 raised := False\<rparr>)"
  by (simp add: signal_main_temperature_def andthen_if assign_def
      set_effective_main_temperature_def async_call_def Let_def split: option.splits)

lemma signal_secondary_eq:
  "signal_secondary cfg h m d r =
     (let sm = secondary_effective_mode cfg m d;
          st = secondary_temp cfg (the (target_temperature (self r))) sm
      in if secondary_climate cfg = None
            \<or> (sm = last_secondary_mode (self r) \<and> st = last_secondary_temp (self r)) then r
         else if sm = OFF then
           (if call_raises h (Set_hvac_mode Secondary OFF)
            then r\<lparr>calls := calls r @ [Set_hvac_mode Secondary OFF], raised := True\<rparr>
            else r\<lparr>self := (self r)\<lparr>last_secondary_mode := OFF, last_secondary_temp := None\<rparr>,
                    calls := calls r @ [Set_hvac_mode Secondary OFF], raised := False\<rparr>)
         else if call_raises h (Set_temperature Secondary (the st))
         then r\<lparr>calls := calls r @ [Set_temperature Secondary (the st)], raised := True\<rparr>
         else if call_raises h (Set_hvac_mode Secondary sm)
         then r\<lparr>calls := calls r @ [Set_temperature Secondary (the st), Set_hvac_mode Secondary sm],
                 raised := True\<rparr>
         else r\<lparr>self := (self r)\<lparr>last_secondary_mode := sm, last_secondary_temp := st\<rparr>,
                 calls := calls r @ [Set_temperature Secondary (the st), Set_hvac_mode Secondary sm],
                 raised := False\<rparr>)"
  by (simp add: signal_secondary_def andthen_if assign_def set_effective_secondary_eq Let_def
      secondary_temp_def)

subsection \<open>The cycle never assigns the target temperature\<close>

lemma target_turn_off_main:
  "target_temperature (self (turn_off_main h r)) = target_temperature (self r)"
  by (simp add: turn_off_main_eq)

lemma target_turn_off_secondary:
  "target_temperature (self (turn_off_secondary cfg h r)) = target_temperature (self r)"
  by (simp add: turn_off_secondary_eq)

lemma target_signal_main_mode:
  "target_temperature (self (signal_main_mode h m r)) = target_temperature (self r)"
  by (simp add: signal_main_mode_eq)

lemma target_signal_main_temperature:
  "target_temperature (self (signal_main_temperature cfg h m r)) = target_temperature (self r)"
  by (simp add: signal_main_temperature_eq split: option.splits)

lemma target_signal_secondary:
  "target_temperature (self (signal_secondary cfg h m d r)) = target_temperature (self r)"
  by (simp add: signal_secondary_eq Let_def)

lemma target_record_switch_time:
  "target_temperature (self (record_switch_time m t r)) = target_temperature (self r)"
  by (simp add: record_switch_time_def assign_def)

lemma target_apply_temperature:
  "target_temperature (self (apply_temperature cfg h r)) = target_temperature (self r)"
proof (cases "read_temperature h (sensor cfg)")
  case None
  then show ?thesis by (simp add: apply_temperature_unreadable)
next
  case (Some cur)
  let ?P = "\<lambda>r. target_temperature (self r)"
  let ?r = "assign (\<lambda>s. s\<lparr>current_temperature := Some cur\<rparr>) r"
  have r: "?P ?r = ?P r" by (simp add: assign_def)
  show ?thesis
  proof (cases "target_temperature (self ?r)")
    case None
    have "?P (andthen (turn_off_main h) (turn_off_secondary cfg h) ?r) = ?P ?r"
      by (rule andthen_keeps) (rule target_turn_off_main target_turn_off_secondary)+
    with Some None r show ?thesis by (simp add: apply_temperature_def)
  next
    case tgt: (Some tgt)
    have "?P (andthen (signal_main_mode h m)
             (andthen (signal_main_temperature cfg h m)
             (andthen (signal_secondary cfg h m d) (record_switch_time m t))) ?r) = ?P ?r"
      for m d t
      by (intro andthen_keeps target_signal_main_mode target_signal_main_temperature
          target_signal_secondary target_record_switch_time)
    with Some tgt r show ?thesis
      by (simp add: apply_temperature_def Let_def)
  qed
qed

lemmas example_defs = example_config_def example_hass_def example_float_def
  DEFAULT_HEATING_PRESETS_def DEFAULT_COOLING_PRESETS_def read_temperature_def

lemmas cycle_eqs = apply_temperature_def andthen_if turn_off_main_eq turn_off_secondary_eq
  signal_main_mode_eq signal_main_temperature_eq signal_secondary_eq record_switch_time_def
  assign_def start_def effective_mode_diff_def cooling_mode_def truthy_def
  secondary_effective_mode_def secondary_temp_def Let_def init_def
  async_set_temperature_def periodic_update_def async_set_preset_mode_def preset_target_def

lemma heating_state_reached:
  "async_set_temperature example_config (example_hass (Some ''18'') None) (Some 22)
     (init example_config 0)
   = \<lparr>self = heating_state,
      calls = [Set_hvac_mode Main HEAT, Set_temperature Main 23,
               Set_temperature Secondary 22, Set_hvac_mode Secondary HEAT],
      raised = False\<rparr>"
  by (simp add: cycle_eqs example_defs heating_state_def)

section \<open>Preset resolution\<close>

text \<open>
  C5. Selecting a preset that has both a heating target \<open>ht\<close> and a cooling target
  \<open>ct\<close>, while the indoor sensor reads \<open>cur\<close>, leaves the target temperature at
  \<open>ht\<close> when \<open>cur\<close> is strictly below the midpoint \<open>(ht + ct) / 2\<close> and at
  \<open>ct\<close> otherwise; a reading equal to the midpoint gives the cooling target.
\<close>

theorem preset_midpoint:
  assumes "heating_presets cfg p = Some (Some ht)"
    and "cooling_presets cfg p = Some (Some ct)"
    and "read_temperature h (sensor cfg) = Some cur"
  shows "target_temperature (self (async_set_preset_mode cfg h p s)) =
           (if cur < (ht + ct) / 2 then Some ht else Some ct)"
  using assms
  by (simp add: async_set_preset_mode_def preset_target_def target_apply_temperature
      start_def Let_def)

text \<open>
  The preset \<^verbatim>\<open>comfort\<close> (heating 20, cooling 24, midpoint 22) at 21, at 23 and at
  exactly 22 degrees.
\<close>

theorem preset_midpoint_witness:
  "target_temperature (self (async_set_preset_mode example_config
      (example_hass (Some ''21'') None) ''comfort'' (init example_config 0))) = Some 20
   \<and> target_temperature (self (async_set_preset_mode example_config
      (example_hass (Some ''23'') None) ''comfort'' (init example_config 0))) = Some 24
   \<and> target_temperature (self (async_set_preset_mode example_config
      (example_hass (Some ''22'') None) ''comfort'' (init example_config 0))) = Some 24"
  using
    preset_midpoint [of example_config "''comfort''" 20 24
      "example_hass (Some ''21'') None" 21 "init example_config 0"]
    preset_midpoint [of example_config "''comfort''" 20 24
      "example_hass (Some ''23'') None" 23 "init example_config 0"]
    preset_midpoint [of example_config "''comfort''" 20 24
      "example_hass (Some ''22'') None" 22 "init example_config 0"]
  by (simp add: example_defs)

text \<open>
  C6, as stated, fails. With the indoor sensor unavailable, selecting \<^verbatim>\<open>comfort\<close>
  (heating 20, cooling 24) does not leave the target temperature as it was (absent): the
  target becomes the heating target 20.
\<close>

theorem preset_without_reading_counterexample:
  "target_temperature (init example_config 0) = None
   \<and> read_temperature (example_hass (Some ''unavailable'') None) (sensor example_config) = None
   \<and> heating_presets example_config ''comfort'' = Some (Some 20)
   \<and> cooling_presets example_config ''comfort'' = Some (Some 24)
   \<and> target_temperature (self (async_set_preset_mode example_config
        (example_hass (Some ''unavailable'') None) ''comfort'' (init example_config 0))) = Some 20"
  by (simp add: async_set_preset_mode_def preset_target_def target_apply_temperature start_def
      init_def example_defs)

text \<open>
  C6, amended. When a preset is selected while the indoor temperature cannot be read, the
  target becomes the preset's entry of the heating table whenever the preset is a key of
  that table (also when the preset has a cooling target as well, and also when that entry
  is \<^verbatim>\<open>None\<close>); it becomes the entry of the cooling table only for a preset that is no
  key of the heating table. A preset that neither table knows leaves the target as it was.
\<close>

theorem preset_without_reading:
  assumes "read_temperature h (sensor cfg) = None"
  shows "target_temperature (self (async_set_preset_mode cfg h p s)) =
           (case heating_presets cfg p of
              Some heating_target \<Rightarrow> heating_target
            | None \<Rightarrow>
               (case cooling_presets cfg p of
                  Some cooling_target \<Rightarrow> cooling_target
                | None \<Rightarrow> target_temperature s))"
  using assms
  by (simp add: async_set_preset_mode_def preset_target_def target_apply_temperature start_def
      split: option.splits)

text \<open>The preset \<^verbatim>\<open>sleep\<close> (heating 15, cooling 30) with the sensor unavailable.\<close>

theorem preset_without_reading_witness:
  "read_temperature (example_hass (Some ''unavailable'') None) (sensor example_config) = None
   \<and> target_temperature (self (async_set_preset_mode example_config
        (example_hass (Some ''unavailable'') None) ''sleep'' (init example_config 0))) = Some 15"
  using preset_without_reading [of "example_hass (Some ''unavailable'') None" example_config
      "''sleep''" "init example_config 0"]
  by (simp add: example_defs)

section \<open>The control decision\<close>







section \<open>Loss of the indoor sensor\<close>

text \<open>
  C4, as stated, fails. Both devices heat (\<open>heating_state\<close>) when the indoor sensor
  becomes unavailable: the tick issues no command at all, so neither device is turned
  off, and the instance is left as it was.
\<close>

theorem unreadable_sensor_counterexample:
  "last_main_mode heating_state = HEAT
   \<and> last_secondary_mode heating_state = HEAT
   \<and> periodic_update example_config (example_hass (Some ''unavailable'') None) heating_state
     = \<lparr>self = heating_state, calls = [], raised = False\<rparr>"
  by (simp add: cycle_eqs example_defs heating_state_def)

text \<open>
  C4, amended. Whenever the indoor temperature cannot be read (entity missing, state
  \<^verbatim>\<open>unknown\<close> or \<^verbatim>\<open>unavailable\<close>, or not a number), the cycle ends at once: the
  decision logic does not run, no command is issued to any device (also to one that is
  not off), and the instance is left exactly as it was.
\<close>

theorem unreadable_sensor:
  assumes "read_temperature h (sensor cfg) = None"
  shows "periodic_update cfg h s = \<lparr>self = s, calls = [], raised = False\<rparr>
       \<and> apply_temperature cfg h r = r"
  using assms by (simp add: periodic_update_def apply_temperature_def start_def)

text \<open>The indoor sensor entity is missing while both devices heat.\<close>

theorem unreadable_sensor_witness:
  "read_temperature (example_hass None None) (sensor example_config) = None
   \<and> periodic_update example_config (example_hass None None) heating_state
     = \<lparr>self = heating_state, calls = [], raised = False\<rparr>"
  using unreadable_sensor [of "example_hass None None" example_config heating_state
      "start heating_state"]
  by (simp add: example_defs)

section \<open>The minimum runtime\<close>

text \<open>
  Two runs compare equal up to the last switch time when \<open>no_time\<close> maps them to the
  same run. Every step of the cycle respects that comparison.
\<close>

lemma andthen_forget:
  assumes "\<And>r. raised (F r) = raised r"
    and "\<And>r. F (f r) = F (f (F r))"
    and "\<And>r. F (g r) = F (g (F r))"
  shows "F (andthen f g r) = F (andthen f g (F r))"
proof -
  have "raised (f r) = raised (F (f r))" by (simp add: assms(1))
  also have "\<dots> = raised (F (f (F r)))" by (simp add: assms(2) [symmetric])
  also have "\<dots> = raised (f (F r))" by (simp add: assms(1))
  finally have raised: "raised (f r) = raised (f (F r))" .
  have "F (g (f r)) = F (g (F (f r)))" by (rule assms(3))
  also have "\<dots> = F (g (F (f (F r))))" by (simp add: assms(2) [symmetric])
  also have "\<dots> = F (g (f (F r)))" by (rule assms(3) [symmetric])
  finally have "F (g (f r)) = F (g (f (F r)))" .
  with raised assms(2) [of r] show ?thesis by (simp add: andthen_if)
qed

lemma raised_no_time: "raised (no_time r) = raised r"
  by (simp add: no_time_def)

lemma no_time_turn_off_main:
  "no_time (turn_off_main h r) = no_time (turn_off_main h (no_time r))"
  by (simp add: turn_off_main_eq no_time_def)

lemma no_time_turn_off_secondary:
  "no_time (turn_off_secondary cfg h r) = no_time (turn_off_secondary cfg h (no_time r))"
  by (simp add: turn_off_secondary_eq no_time_def)

lemma no_time_signal_main_mode:
  "no_time (signal_main_mode h m r) = no_time (signal_main_mode h m (no_time r))"
  by (simp add: signal_main_mode_eq no_time_def)

lemma no_time_signal_main_temperature:
  "no_time (signal_main_temperature cfg h m r) =
   no_time (signal_main_temperature cfg h m (no_time r))"
  by (simp add: signal_main_temperature_eq no_time_def split: option.splits)

lemma no_time_signal_secondary:
  "no_time (signal_secondary cfg h m d r) = no_time (signal_secondary cfg h m d (no_time r))"
proof -
  define sm where "sm = secondary_effective_mode cfg m d"
  define st where "st = secondary_temp cfg (the (target_temperature (self r))) sm"
  have "no_time (andthen (set_effective_secondary cfg h sm st)
           (assign (\<lambda>s. s\<lparr>last_secondary_mode := sm, last_secondary_temp := st\<rparr>)) r)
      = no_time (andthen (set_effective_secondary cfg h sm st)
           (assign (\<lambda>s. s\<lparr>last_secondary_mode := sm, last_secondary_temp := st\<rparr>)) (no_time r))"
    by (rule andthen_forget)
      (simp_all add: no_time_def set_effective_secondary_eq assign_def)
  then show ?thesis
    by (simp add: signal_secondary_def Let_def sm_def st_def no_time_def)
qed

lemma no_time_record_switch_time:
  "no_time (record_switch_time m t r) = no_time (record_switch_time m t (no_time r))"
  by (simp add: record_switch_time_def assign_def no_time_def)

lemma no_time_apply_temperature:
  "no_time (apply_temperature cfg h r) = no_time (apply_temperature cfg h (no_time r))"
proof (cases "read_temperature h (sensor cfg)")
  case None
  then show ?thesis by (simp add: apply_temperature_unreadable no_time_def)
next
  case (Some cur)
  let ?a = "assign (\<lambda>s. s\<lparr>current_temperature := Some cur\<rparr>)"
  have a: "?a (no_time r) = no_time (?a r)"
    "target_temperature (self (no_time (?a r))) = target_temperature (self r)"
    "target_temperature (self (?a r)) = target_temperature (self r)"
    by (simp_all add: assign_def no_time_def)
  show ?thesis
  proof (cases "target_temperature (self r)")
    case None
    have "no_time (andthen (turn_off_main h) (turn_off_secondary cfg h) (?a r))
        = no_time (andthen (turn_off_main h) (turn_off_secondary cfg h) (no_time (?a r)))"
      by (intro andthen_forget raised_no_time no_time_turn_off_main no_time_turn_off_secondary)
    with Some None a show ?thesis by (simp add: apply_temperature_def)
  next
    case tgt: (Some tgt)
    have "no_time (andthen (signal_main_mode h m)
             (andthen (signal_main_temperature cfg h m)
             (andthen (signal_secondary cfg h m d) (record_switch_time m t))) (?a r))
        = no_time (andthen (signal_main_mode h m)
             (andthen (signal_main_temperature cfg h m)
             (andthen (signal_secondary cfg h m d) (record_switch_time m t))) (no_time (?a r)))"
      for m d t
      by (intro andthen_forget raised_no_time no_time_signal_main_mode
          no_time_signal_main_temperature no_time_signal_secondary no_time_record_switch_time)
    with Some tgt a show ?thesis by (simp add: apply_temperature_def Let_def)
  qed
qed


lemma min_runtime_steps [simp]:
  "cooling_mode (cfg\<lparr>min_runtime := n\<rparr>) = cooling_mode cfg"
  "effective_mode_diff (cfg\<lparr>min_runtime := n\<rparr>) = effective_mode_diff cfg"
  "secondary_effective_mode (cfg\<lparr>min_runtime := n\<rparr>) = secondary_effective_mode cfg"
  "secondary_temp (cfg\<lparr>min_runtime := n\<rparr>) = secondary_temp cfg"
  "set_effective_secondary (cfg\<lparr>min_runtime := n\<rparr>) = set_effective_secondary cfg"
  "turn_off_secondary (cfg\<lparr>min_runtime := n\<rparr>) = turn_off_secondary cfg"
  "signal_main_temperature (cfg\<lparr>min_runtime := n\<rparr>) = signal_main_temperature cfg"
  "preset_target (cfg\<lparr>min_runtime := n\<rparr>) = preset_target cfg"
  by (simp_all add: fun_eq_iff cooling_mode_def effective_mode_diff_def
      secondary_effective_mode_def secondary_temp_def set_effective_secondary_def
      turn_off_secondary_def signal_main_temperature_def preset_target_def
      cong: option.case_cong)

lemma min_runtime_signal_secondary [simp]:
  "signal_secondary (cfg\<lparr>min_runtime := n\<rparr>) = signal_secondary cfg"
  by (simp add: fun_eq_iff signal_secondary_def Let_def)

lemma min_runtime_apply_temperature [simp]:
  "apply_temperature (cfg\<lparr>min_runtime := n\<rparr>) = apply_temperature cfg"
  by (simp add: fun_eq_iff apply_temperature_def Let_def cong: option.case_cong)

lemma min_runtime_handle [simp]: "handle (cfg\<lparr>min_runtime := n\<rparr>) h e s = handle cfg h e s"
  by (cases e)
    (simp_all add: periodic_update_def async_set_temperature_def async_set_preset_mode_def
      async_update_def split: option.splits)

lemma min_runtime_run_events [simp]:
  "run_events (cfg\<lparr>min_runtime := n\<rparr>) es s = run_events cfg es s"
  by (induction es arbitrary: s) simp_all


lemma same_but_time_iff:
  "((s1::controller)\<lparr>last_switch_time := 0\<rparr> = (s2::controller)\<lparr>last_switch_time := 0\<rparr>) \<longleftrightarrow>
     last_main_mode s1 = last_main_mode s2 \<and> last_main_temp s1 = last_main_temp s2 \<and>
     last_secondary_mode s1 = last_secondary_mode s2 \<and>
     last_secondary_temp s1 = last_secondary_temp s2 \<and>
     target_temperature s1 = target_temperature s2 \<and>
     current_temperature s1 = current_temperature s2 \<and> preset_mode s1 = preset_mode s2"
  by (cases s1, cases s2) auto

lemma no_time_eq_iff:
  "no_time r1 = no_time r2 \<longleftrightarrow>
     calls r1 = calls r2 \<and> raised r1 = raised r2 \<and>
     (self r1)\<lparr>last_switch_time := 0\<rparr> = (self r2)\<lparr>last_switch_time := 0\<rparr>"
  by (cases r1, cases r2) (auto simp add: no_time_def)

lemma no_time_apply_start:
  assumes "s1\<lparr>last_switch_time := 0\<rparr> = s2\<lparr>last_switch_time := 0\<rparr>"
  shows "no_time (apply_temperature cfg h (start s1)) = no_time (apply_temperature cfg h (start s2))"
proof -
  from assms have eq: "no_time (start s1) = no_time (start s2)"
    by (simp add: no_time_def start_def)
  have "no_time (apply_temperature cfg h (start s1))
      = no_time (apply_temperature cfg h (no_time (start s1)))"
    by (rule no_time_apply_temperature)
  also have "\<dots> = no_time (apply_temperature cfg h (no_time (start s2)))"
    by (simp only: eq)
  also have "\<dots> = no_time (apply_temperature cfg h (start s2))"
    by (rule no_time_apply_temperature [symmetric])
  finally show ?thesis .
qed

lemma no_time_handle:
  assumes "s1\<lparr>last_switch_time := 0\<rparr> = s2\<lparr>last_switch_time := 0\<rparr>"
  shows "no_time (handle cfg h e s1) = no_time (handle cfg h e s2)"
proof (cases e)
  case Tick
  have "no_time (apply_temperature cfg h (start s1)) = no_time (apply_temperature cfg h (start s2))"
    using assms by (rule no_time_apply_start)
  with Tick show ?thesis by (simp add: periodic_update_def)
next
  case (Manual_setpoint x)
  show ?thesis
  proof (cases x)
    case None
    from assms have "no_time (start s1) = no_time (start s2)"
      by (simp add: no_time_def start_def)
    with Manual_setpoint None show ?thesis
      by (simp add: async_set_temperature_def)
  next
    case (Some a)
    from assms have "(s1\<lparr>target_temperature := Some a\<rparr>)\<lparr>last_switch_time := 0\<rparr>
        = (s2\<lparr>target_temperature := Some a\<rparr>)\<lparr>last_switch_time := 0\<rparr>"
      by (simp add: same_but_time_iff)
    then have "no_time (apply_temperature cfg h (start (s1\<lparr>target_temperature := Some a\<rparr>)))
        = no_time (apply_temperature cfg h (start (s2\<lparr>target_temperature := Some a\<rparr>)))"
      by (rule no_time_apply_start)
    with Manual_setpoint Some show ?thesis
      by (simp add: async_set_temperature_def)
  qed
next
  case (Preset_change p)
  from assms have t: "target_temperature s1 = target_temperature s2"
    by (simp add: same_but_time_iff)
  from assms have s: "no_time (start s1) = no_time (start s2)"
    by (simp add: no_time_def start_def)
  from assms have "(s1\<lparr>preset_mode := p, target_temperature := x\<rparr>)\<lparr>last_switch_time := 0\<rparr>
        = (s2\<lparr>preset_mode := p, target_temperature := x\<rparr>)\<lparr>last_switch_time := 0\<rparr>" for x
    by (simp add: same_but_time_iff)
  then have "no_time (apply_temperature cfg h
                (start (s1\<lparr>preset_mode := p, target_temperature := x\<rparr>)))
      = no_time (apply_temperature cfg h
                (start (s2\<lparr>preset_mode := p, target_temperature := x\<rparr>)))" for x
    by (rule no_time_apply_start)
  with Preset_change t s show ?thesis
    by (simp add: async_set_preset_mode_def Let_def)
next
  case Update
  from assms have "no_time (start (s1\<lparr>current_temperature := x\<rparr>))
        = no_time (start (s2\<lparr>current_temperature := x\<rparr>))" for x
    by (simp add: same_but_time_iff no_time_eq_iff start_def)
  moreover from assms have "no_time (start s1) = no_time (start s2)"
    by (simp add: no_time_def start_def)
  ultimately show ?thesis using Update
    by (simp add: async_update_def split: option.splits)
qed

lemma run_events_no_time:
  assumes "s1\<lparr>last_switch_time := 0\<rparr> = s2\<lparr>last_switch_time := 0\<rparr>"
  shows "snd (run_events cfg es s1) = snd (run_events cfg es s2)
       \<and> (fst (run_events cfg es s1))\<lparr>last_switch_time := 0\<rparr>
         = (fst (run_events cfg es s2))\<lparr>last_switch_time := 0\<rparr>"
  using assms
proof (induction es arbitrary: s1 s2)
  case Nil
  then show ?case by simp
next
  case (Cons he es)
  let ?r1 = "handle cfg (fst he) (snd he) s1"
  let ?r2 = "handle cfg (fst he) (snd he) s2"
  have "no_time ?r1 = no_time ?r2" using Cons.prems by (rule no_time_handle)
  then have calls: "calls ?r1 = calls ?r2"
    and self: "(self ?r1)\<lparr>last_switch_time := 0\<rparr> = (self ?r2)\<lparr>last_switch_time := 0\<rparr>"
    by (simp_all add: no_time_eq_iff)
  from Cons.IH [OF self] calls show ?case by (simp add: Let_def)
qed

text \<open>
  C9. The configured minimum runtime and the tracked last switch time never influence the
  commands: two runs over the same inputs whose configurations differ only in
  \<open>min_runtime\<close>, started from the constructor's state or from any two states that
  differ only in the last switch time, attempt the same service calls in the same order
  and end in states that agree on every field but the last switch time.
\<close>

theorem min_runtime_never_matters:
  "snd (run_events (cfg\<lparr>min_runtime := n\<rparr>) es (init (cfg\<lparr>min_runtime := n\<rparr>) clock))
     = snd (run_events cfg es (init cfg clock))
   \<and> snd (run_events (cfg\<lparr>min_runtime := n\<rparr>) es (s\<lparr>last_switch_time := t\<rparr>))
     = snd (run_events cfg es s)
   \<and> (fst (run_events (cfg\<lparr>min_runtime := n\<rparr>) es (s\<lparr>last_switch_time := t\<rparr>)))
        \<lparr>last_switch_time := 0\<rparr>
     = (fst (run_events cfg es s))\<lparr>last_switch_time := 0\<rparr>"
proof -
  have "(init (cfg\<lparr>min_runtime := n\<rparr>) clock)\<lparr>last_switch_time := 0\<rparr>
      = (init cfg clock)\<lparr>last_switch_time := 0\<rparr>"
    by (simp add: init_def)
  moreover have "(s\<lparr>last_switch_time := t\<rparr>)\<lparr>last_switch_time := 0\<rparr> = s\<lparr>last_switch_time := 0\<rparr>"
    by simp
  ultimately show ?thesis
    using run_events_no_time [of "init (cfg\<lparr>min_runtime := n\<rparr>) clock" "init cfg clock" cfg es]
      run_events_no_time [of "s\<lparr>last_switch_time := t\<rparr>" s cfg es]
    by simp
qed


text \<open>A manual setpoint and a tick, with a minimum runtime of 0 and of 300 seconds.\<close>

theorem min_runtime_never_matters_witness:
  "snd (run_events (example_config\<lparr>min_runtime := 0\<rparr>)
        [(example_hass (Some ''18'') None, Manual_setpoint (Some 22)),
         (example_hass (Some ''18'') None, Tick)]
        (init (example_config\<lparr>min_runtime := 0\<rparr>) 1000))
   = snd (run_events example_config
        [(example_hass (Some ''18'') None, Manual_setpoint (Some 22)),
         (example_hass (Some ''18'') None, Tick)]
        (init example_config 1000))
   \<and> snd (run_events example_config
        [(example_hass (Some ''18'') None, Manual_setpoint (Some 22)),
         (example_hass (Some ''18'') None, Tick)]
        (init example_config 1000))
   = [Set_hvac_mode Main HEAT, Set_temperature Main 23,
      Set_temperature Secondary 22, Set_hvac_mode Secondary HEAT]"
proof -
  have "snd (run_events example_config
        [(example_hass (Some ''18'') None, Manual_setpoint (Some 22)),
         (example_hass (Some ''18'') None, Tick)]
        (init example_config 1000))
   = [Set_hvac_mode Main HEAT, Set_temperature Main 23,
      Set_temperature Secondary 22, Set_hvac_mode Secondary HEAT]"
    by (simp add: cycle_eqs example_defs)
  with min_runtime_never_matters [where cfg = example_config and n = 0 and clock = 1000
      and s = heating_state and t = 5
      and es = "[(example_hass (Some ''18'') None, Manual_setpoint (Some 22)),
        (example_hass (Some ''18'') None, Tick)]"]
  show ?thesis by simp
qed

section \<open>Without a secondary device\<close>

text \<open>
  Without a secondary device the two secondary steps of the cycle do nothing, and every
  other step commutes with overwriting the secondary last-commanded fields.
\<close>

lemma andthen_commute:
  assumes "\<And>r. raised (U r) = raised r"
    and "\<And>r. f (U r) = U (f r)"
    and "\<And>r. g (U r) = U (g r)"
  shows "andthen f g (U r) = U (andthen f g r)"
  by (simp add: andthen_if assms)

lemma andthen_invariant:
  assumes "\<And>r. P r \<Longrightarrow> P (f r)" and "\<And>r. P r \<Longrightarrow> P (g r)" and "P r"
  shows "P (andthen f g r)"
  using assms by (simp add: andthen_if)

lemma raised_with_secondary: "raised (with_secondary m t r) = raised r"
  by (simp add: with_secondary_def)

lemma no_secondary_steps:
  assumes "secondary_climate cfg = None"
  shows "turn_off_secondary cfg h r = r" and "signal_secondary cfg h m d r = r"
  using assms by (simp_all add: turn_off_secondary_def signal_secondary_def)

lemma with_secondary_turn_off_main:
  "turn_off_main h (with_secondary m' t' r) = with_secondary m' t' (turn_off_main h r)"
  by (simp add: turn_off_main_eq with_secondary_def)

lemma with_secondary_signal_main_mode:
  "signal_main_mode h m (with_secondary m' t' r) = with_secondary m' t' (signal_main_mode h m r)"
  by (simp add: signal_main_mode_eq with_secondary_def)

lemma with_secondary_signal_main_temperature:
  "signal_main_temperature cfg h m (with_secondary m' t' r)
   = with_secondary m' t' (signal_main_temperature cfg h m r)"
  by (simp add: signal_main_temperature_eq with_secondary_def split: option.splits)

lemma with_secondary_record_switch_time:
  "record_switch_time m t (with_secondary m' t' r) = with_secondary m' t' (record_switch_time m t r)"
  by (simp add: record_switch_time_def assign_def with_secondary_def)

lemma with_secondary_apply_temperature:
  assumes "secondary_climate cfg = None"
  shows "apply_temperature cfg h (with_secondary m' t' r)
       = with_secondary m' t' (apply_temperature cfg h r)"
proof (cases "read_temperature h (sensor cfg)")
  case None
  then show ?thesis by (simp add: apply_temperature_unreadable)
next
  case (Some cur)
  let ?a = "assign (\<lambda>s. s\<lparr>current_temperature := Some cur\<rparr>)"
  let ?U = "with_secondary m' t'"
  have a: "?a (?U r) = ?U (?a r)"
    "target_temperature (self (?U (?a r))) = target_temperature (self r)"
    "target_temperature (self (?a r)) = target_temperature (self r)"
    by (simp_all add: assign_def with_secondary_def)
  have ids: "turn_off_secondary cfg h = (\<lambda>r. r)" "signal_secondary cfg h m d = (\<lambda>r. r)" for m d
    using assms by (simp_all add: fun_eq_iff no_secondary_steps)
  show ?thesis
  proof (cases "target_temperature (self r)")
    case None
    have "andthen (turn_off_main h) (turn_off_secondary cfg h) (?U (?a r))
        = ?U (andthen (turn_off_main h) (turn_off_secondary cfg h) (?a r))"
      unfolding ids
      by (intro andthen_commute raised_with_secondary with_secondary_turn_off_main refl)
    with Some None a show ?thesis by (simp add: apply_temperature_def)
  next
    case tgt: (Some tgt)
    have "andthen (signal_main_mode h m)
             (andthen (signal_main_temperature cfg h m)
             (andthen (signal_secondary cfg h m d) (record_switch_time m t))) (?U (?a r))
        = ?U (andthen (signal_main_mode h m)
             (andthen (signal_main_temperature cfg h m)
             (andthen (signal_secondary cfg h m d) (record_switch_time m t))) (?a r))"
      for m d t
      unfolding ids
      by (intro andthen_commute raised_with_secondary with_secondary_signal_main_mode
          with_secondary_signal_main_temperature with_secondary_record_switch_time refl)
    with Some tgt a show ?thesis by (simp add: apply_temperature_def Let_def)
  qed
qed

lemma with_secondary_start:
  "start (s\<lparr>last_secondary_mode := m', last_secondary_temp := t'\<rparr>)
   = with_secondary m' t' (start s)"
  by (simp add: start_def with_secondary_def)

lemma with_secondary_handle:
  assumes "secondary_climate cfg = None"
  shows "handle cfg h e (s\<lparr>last_secondary_mode := m', last_secondary_temp := t'\<rparr>)
       = with_secondary m' t' (handle cfg h e s)"
proof -
  let ?s = "s\<lparr>last_secondary_mode := m', last_secondary_temp := t'\<rparr>"
  have ap: "apply_temperature cfg h
              (start (s0\<lparr>last_secondary_mode := m', last_secondary_temp := t'\<rparr>))
          = with_secondary m' t' (apply_temperature cfg h (start s0))" for s0
    using assms by (simp add: with_secondary_start with_secondary_apply_temperature)
  show ?thesis
  proof (cases e)
    case Tick
    then show ?thesis by (simp add: periodic_update_def ap)
  next
    case (Manual_setpoint x)
    show ?thesis
    proof (cases x)
      case None
      with Manual_setpoint show ?thesis
        by (simp add: async_set_temperature_def with_secondary_start)
    next
      case (Some a)
      have "?s\<lparr>target_temperature := Some a\<rparr>
          = (s\<lparr>target_temperature := Some a\<rparr>)
              \<lparr>last_secondary_mode := m', last_secondary_temp := t'\<rparr>"
        by simp
      then have "apply_temperature cfg h (start (?s\<lparr>target_temperature := Some a\<rparr>))
          = with_secondary m' t'
              (apply_temperature cfg h (start (s\<lparr>target_temperature := Some a\<rparr>)))"
        by (simp only: ap)
      with Manual_setpoint Some show ?thesis
        by (simp only: handle.simps async_set_temperature_def option.case)
    qed
  next
    case (Preset_change p)
    show ?thesis
    proof (cases "heating_presets cfg p = None \<and> cooling_presets cfg p = None")
      case True
      with Preset_change show ?thesis
        by (simp add: async_set_preset_mode_def with_secondary_start)
    next
      case False
      define y where
        "y = preset_target cfg p (read_temperature h (sensor cfg)) (target_temperature s)"
      have upd: "?s\<lparr>preset_mode := p, target_temperature := y\<rparr>
          = (s\<lparr>preset_mode := p, target_temperature := y\<rparr>)
              \<lparr>last_secondary_mode := m', last_secondary_temp := t'\<rparr>"
        by (cases s) simp
      have tgt: "target_temperature ?s = target_temperature s" by simp
      have "async_set_preset_mode cfg h p ?s
          = apply_temperature cfg h (start (?s\<lparr>preset_mode := p, target_temperature := y\<rparr>))"
        using False by (simp only: async_set_preset_mode_def Let_def y_def tgt if_False)
      then have lhs: "async_set_preset_mode cfg h p ?s
          = with_secondary m' t'
              (apply_temperature cfg h (start (s\<lparr>preset_mode := p, target_temperature := y\<rparr>)))"
        by (simp only: upd ap)
      have rhs: "async_set_preset_mode cfg h p s
          = apply_temperature cfg h (start (s\<lparr>preset_mode := p, target_temperature := y\<rparr>))"
        using False by (simp only: async_set_preset_mode_def Let_def y_def if_False)
      from Preset_change show ?thesis
        by (simp only: handle.simps lhs rhs)
    qed
  next
    case Update
    show ?thesis
    proof (cases "read_temperature h (sensor cfg)")
      case None
      with Update show ?thesis by (simp add: async_update_def with_secondary_start)
    next
      case (Some cur)
      have "?s\<lparr>current_temperature := Some cur\<rparr>
          = (s\<lparr>current_temperature := Some cur\<rparr>)
              \<lparr>last_secondary_mode := m', last_secondary_temp := t'\<rparr>"
        by simp
      then have "start (?s\<lparr>current_temperature := Some cur\<rparr>)
          = with_secondary m' t' (start (s\<lparr>current_temperature := Some cur\<rparr>))"
        by (simp only: with_secondary_start)
      with Update Some show ?thesis
        by (simp only: handle.simps async_update_def option.case)
    qed
  qed
qed

lemma self_with_secondary:
  "self (with_secondary m t r) = (self r)\<lparr>last_secondary_mode := m, last_secondary_temp := t\<rparr>"
  "calls (with_secondary m t r) = calls r"
  by (simp_all add: with_secondary_def)

lemma with_secondary_run_events:
  assumes "secondary_climate cfg = None"
  shows "run_events cfg es (s\<lparr>last_secondary_mode := m, last_secondary_temp := t\<rparr>)
       = ((fst (run_events cfg es s))\<lparr>last_secondary_mode := m, last_secondary_temp := t\<rparr>,
          snd (run_events cfg es s))"
proof (induction es arbitrary: s)
  case Nil
  then show ?case by simp
next
  case (Cons he es)
  show ?case
    by (simp add: Let_def with_secondary_handle [OF assms] self_with_secondary Cons.IH)
qed


lemma main_only_steps:
  "main_only r \<Longrightarrow> main_only (turn_off_main h r)"
  "main_only r \<Longrightarrow> main_only (signal_main_mode h m r)"
  "main_only r \<Longrightarrow> main_only (signal_main_temperature cfg h m r)"
  "main_only r \<Longrightarrow> main_only (record_switch_time m t r)"
  by (simp_all add: main_only_def turn_off_main_eq signal_main_mode_eq
      signal_main_temperature_eq record_switch_time_def assign_def split: option.splits)

lemma main_only_apply_temperature:
  assumes "secondary_climate cfg = None" and "main_only r"
  shows "main_only (apply_temperature cfg h r)"
proof (cases "read_temperature h (sensor cfg)")
  case None
  with assms show ?thesis by (simp add: apply_temperature_unreadable)
next
  case (Some cur)
  let ?a = "assign (\<lambda>s. s\<lparr>current_temperature := Some cur\<rparr>)"
  have a: "main_only (?a r)" using assms(2) by (simp add: main_only_def assign_def)
  have ids: "turn_off_secondary cfg h = (\<lambda>r. r)" "signal_secondary cfg h m d = (\<lambda>r. r)" for m d
    using assms by (simp_all add: fun_eq_iff no_secondary_steps)
  show ?thesis
  proof (cases "target_temperature (self (?a r))")
    case None
    have "main_only (andthen (turn_off_main h) (turn_off_secondary cfg h) (?a r))"
      unfolding ids by (intro andthen_invariant [where P = main_only] main_only_steps a)
    with Some None show ?thesis by (simp add: apply_temperature_def)
  next
    case tgt: (Some tgt)
    have "main_only (andthen (signal_main_mode h m)
             (andthen (signal_main_temperature cfg h m)
             (andthen (signal_secondary cfg h m d) (record_switch_time m t))) (?a r))"
      for m d t
      unfolding ids by (intro andthen_invariant [where P = main_only] main_only_steps a)
    with Some tgt show ?thesis by (simp add: apply_temperature_def Let_def)
  qed
qed

lemma main_only_handle:
  assumes "secondary_climate cfg = None"
  shows "main_only (handle cfg h e s)"
proof -
  have s: "main_only (start s0)" for s0 by (simp add: main_only_def start_def)
  have ap: "main_only (apply_temperature cfg h (start s0))" for s0
    using assms s by (rule main_only_apply_temperature)
  show ?thesis
    by (cases e)
      (simp_all add: periodic_update_def async_set_temperature_def async_set_preset_mode_def
        async_update_def ap s Let_def split: option.splits)
qed

lemma main_only_run_events:
  assumes "secondary_climate cfg = None"
  shows "list_all (\<lambda>c. call_device c = Main) (snd (run_events cfg es s))"
proof (induction es arbitrary: s)
  case Nil
  then show ?case by simp
next
  case (Cons he es)
  from main_only_handle [OF assms, of "fst he" "snd he" s] Cons.IH show ?case
    by (simp add: Let_def main_only_def)
qed

text \<open>
  C8. Without a secondary device, under every sequence of ticks, manual setpoints, preset
  changes and display updates: every service call attempted addresses the main device;
  the fields \<open>last_secondary_mode\<close> and \<open>last_secondary_temp\<close> keep their initial
  values (never written); and overwriting them in the initial state with any other
  values changes neither the calls nor any other field of the final state (never read).
\<close>

theorem no_secondary_device:
  assumes "secondary_climate cfg = None"
  shows "list_all (\<lambda>c. call_device c = Main) (snd (run_events cfg es s))
       \<and> last_secondary_mode (fst (run_events cfg es s)) = last_secondary_mode s
       \<and> last_secondary_temp (fst (run_events cfg es s)) = last_secondary_temp s
       \<and> run_events cfg es (s\<lparr>last_secondary_mode := m, last_secondary_temp := t\<rparr>)
         = ((fst (run_events cfg es s))\<lparr>last_secondary_mode := m, last_secondary_temp := t\<rparr>,
            snd (run_events cfg es s))"
proof -
  have "s\<lparr>last_secondary_mode := last_secondary_mode s,
          last_secondary_temp := last_secondary_temp s\<rparr> = s"
    by simp
  with with_secondary_run_events [OF assms, where es = es and s = s
      and m = "last_secondary_mode s" and t = "last_secondary_temp s"]
  have eq: "run_events cfg es s
      = ((fst (run_events cfg es s))\<lparr>last_secondary_mode := last_secondary_mode s,
          last_secondary_temp := last_secondary_temp s\<rparr>, snd (run_events cfg es s))"
    by (simp only:)
  have "last_secondary_mode (fst (run_events cfg es s)) = last_secondary_mode s"
    by (subst eq) simp
  moreover have "last_secondary_temp (fst (run_events cfg es s)) = last_secondary_temp s"
    by (subst eq) simp
  ultimately show ?thesis
    using main_only_run_events [OF assms] with_secondary_run_events [OF assms] by simp
qed

text \<open>
  The default configuration without its secondary device: a manual setpoint of 22 at an
  indoor reading of 18, followed by a tick.
\<close>

theorem no_secondary_device_witness:
  "secondary_climate (example_config\<lparr>secondary_climate := None\<rparr>) = None
   \<and> snd (run_events (example_config\<lparr>secondary_climate := None\<rparr>)
        [(example_hass (Some ''18'') None, Manual_setpoint (Some 22)),
         (example_hass (Some ''18'') None, Tick)]
        (init (example_config\<lparr>secondary_climate := None\<rparr>) 0))
     = [Set_hvac_mode Main HEAT, Set_temperature Main 23]
   \<and> last_secondary_mode (fst (run_events (example_config\<lparr>secondary_climate := None\<rparr>)
        [(example_hass (Some ''18'') None, Manual_setpoint (Some 22)),
         (example_hass (Some ''18'') None, Tick)]
        (init (example_config\<lparr>secondary_climate := None\<rparr>) 0))) = OFF"
proof -
  have "snd (run_events (example_config\<lparr>secondary_climate := None\<rparr>)
        [(example_hass (Some ''18'') None, Manual_setpoint (Some 22)),
         (example_hass (Some ''18'') None, Tick)]
        (init (example_config\<lparr>secondary_climate := None\<rparr>) 0))
     = [Set_hvac_mode Main HEAT, Set_temperature Main 23]"
    by (simp add: cycle_eqs example_defs)
  with no_secondary_device [where cfg = "example_config\<lparr>secondary_climate := None\<rparr>"
      and s = "init (example_config\<lparr>secondary_climate := None\<rparr>) 0"
      and m = HEAT and t = "Some 5"
      and es = "[(example_hass (Some ''18'') None, Manual_setpoint (Some 22)),
        (example_hass (Some ''18'') None, Tick)]"]
  show ?thesis by (simp add: init_def)
qed

section \<open>Commands are sent on change only\<close>

text \<open>Which calls a step can add, in terms of the instance the step starts from.\<close>

lemma calls_andthen:
  "c \<in> set (calls (andthen f g r)) \<Longrightarrow> c \<in> set (calls (f r)) \<or> c \<in> set (calls (g (f r)))"
  by (simp add: andthen_if split: if_splits)

lemma calls_turn_off_main:
  "c \<in> set (calls (turn_off_main h r)) \<Longrightarrow>
     c \<in> set (calls r) \<or> (c = Set_hvac_mode Main OFF \<and> last_main_mode (self r) \<noteq> OFF)"
  by (auto simp add: turn_off_main_eq split: if_splits)

lemma calls_turn_off_secondary:
  "c \<in> set (calls (turn_off_secondary cfg h r)) \<Longrightarrow>
     c \<in> set (calls r) \<or>
     (c = Set_hvac_mode Secondary OFF \<and> secondary_climate cfg \<noteq> None \<and>
      last_secondary_mode (self r) \<noteq> OFF)"
  by (auto simp add: turn_off_secondary_eq split: if_splits)

lemma calls_signal_main_mode:
  "c \<in> set (calls (signal_main_mode h m r)) \<Longrightarrow>
     c \<in> set (calls r) \<or> (c = Set_hvac_mode Main m \<and> m \<noteq> last_main_mode (self r))"
  by (auto simp add: signal_main_mode_eq split: if_splits)

lemma calls_signal_main_temperature:
  "c \<in> set (calls (signal_main_temperature cfg h m r)) \<Longrightarrow>
     c \<in> set (calls r) \<or>
     (\<exists>tgt. target_temperature (self r) = Some tgt \<and> m \<noteq> OFF \<and>
            c = Set_temperature Main (tgt + primary_offset cfg) \<and>
            last_main_temp (self r) \<noteq> Some (tgt + primary_offset cfg))"
  by (auto simp add: signal_main_temperature_eq split: if_splits option.splits)

lemma calls_signal_secondary:
  "c \<in> set (calls (signal_secondary cfg h m d r)) \<Longrightarrow>
     c \<in> set (calls r) \<or>
     (secondary_climate cfg \<noteq> None \<and>
      (secondary_effective_mode cfg m d \<noteq> last_secondary_mode (self r) \<or>
       secondary_temp cfg (the (target_temperature (self r))) (secondary_effective_mode cfg m d)
         \<noteq> last_secondary_temp (self r)) \<and>
      (c = Set_hvac_mode Secondary (secondary_effective_mode cfg m d) \<or>
       (secondary_effective_mode cfg m d \<noteq> OFF \<and>
        c = Set_temperature Secondary (the (target_temperature (self r)) + secondary_offset cfg))))"
  by (auto simp add: signal_secondary_eq Let_def secondary_temp_def split: if_splits)

lemma calls_record_switch_time: "calls (record_switch_time m t r) = calls r"
  by (simp add: record_switch_time_def assign_def)

lemma frame_turn_off_main:
  "last_secondary_mode (self (turn_off_main h r)) = last_secondary_mode (self r)"
  "last_secondary_temp (self (turn_off_main h r)) = last_secondary_temp (self r)"
  by (simp_all add: turn_off_main_eq)

lemma frame_signal_main_mode:
  "last_main_temp (self (signal_main_mode h m r)) = last_main_temp (self r)"
  "last_secondary_mode (self (signal_main_mode h m r)) = last_secondary_mode (self r)"
  "last_secondary_temp (self (signal_main_mode h m r)) = last_secondary_temp (self r)"
  by (simp_all add: signal_main_mode_eq)

lemma frame_signal_main_temperature:
  "last_main_mode (self (signal_main_temperature cfg h m r)) = last_main_mode (self r)"
  "last_secondary_mode (self (signal_main_temperature cfg h m r)) = last_secondary_mode (self r)"
  "last_secondary_temp (self (signal_main_temperature cfg h m r)) = last_secondary_temp (self r)"
  by (simp_all add: signal_main_temperature_eq split: option.splits)

text \<open>
  C3, as stated, fails for the secondary device, whose mode and setpoint are sent
  together. Both devices heat at target 22 (\<open>heating_state\<close>). Raising the target to 23
  sends the secondary device the mode \<open>HEAT\<close> again, although its last-commanded mode
  is \<open>HEAT\<close>. And an indoor reading of 26 at the unchanged target sends it the setpoint
  22 again, although its last-commanded setpoint is 22.
\<close>

theorem commands_only_on_change_counterexample:
  "last_secondary_mode heating_state = HEAT
   \<and> last_secondary_temp heating_state = Some 22
   \<and> calls (async_set_temperature example_config (example_hass (Some ''18'') None) (Some 23)
        heating_state)
     = [Set_temperature Main 24, Set_temperature Secondary 23, Set_hvac_mode Secondary HEAT]
   \<and> calls (periodic_update example_config (example_hass (Some ''26'') None) heating_state)
     = [Set_hvac_mode Main COOL, Set_temperature Secondary 22, Set_hvac_mode Secondary COOL]"
  by (simp add: cycle_eqs example_defs heating_state_def)

text \<open>
  C3, amended. In every cycle: a mode command goes to the main device only if its mode
  differs from the last-commanded main mode; a setpoint command goes to the main device
  only if the computed mode is active and the setpoint (target plus primary offset)
  differs from the last-commanded main setpoint. The secondary device is commanded as a
  pair (setpoint first when the mode is active, then the mode), and only if the computed
  secondary mode differs from the recorded last-commanded secondary mode or the computed
  secondary setpoint (absent when the mode is \<open>OFF\<close>) differs from the recorded
  last-commanded secondary setpoint. So no command goes to a device whose computed mode
  and setpoint both equal the recorded last-commanded values.
\<close>

theorem commands_only_on_change:
  assumes c: "c \<in> set (calls (apply_temperature cfg h (start s)))"
  shows "(case c of
            Set_hvac_mode Main m \<Rightarrow> m \<noteq> last_main_mode s
          | Set_temperature Main t \<Rightarrow>
              Some t \<noteq> last_main_temp s \<and>
              (\<exists>cur tgt. read_temperature h (sensor cfg) = Some cur \<and>
                 target_temperature s = Some tgt \<and>
                 fst (effective_mode_diff cfg h cur tgt) \<noteq> OFF \<and>
                 t = tgt + primary_offset cfg)
          | Set_hvac_mode Secondary m \<Rightarrow>
              secondary_climate cfg \<noteq> None \<and>
              (m \<noteq> last_secondary_mode s \<or>
               (\<exists>tgt. target_temperature s = Some tgt \<and>
                  secondary_temp cfg tgt m \<noteq> last_secondary_temp s))
          | Set_temperature Secondary t \<Rightarrow>
              secondary_climate cfg \<noteq> None \<and>
              (\<exists>cur tgt m. read_temperature h (sensor cfg) = Some cur \<and>
                 target_temperature s = Some tgt \<and>
                 m = secondary_effective_mode cfg (fst (effective_mode_diff cfg h cur tgt))
                       (snd (effective_mode_diff cfg h cur tgt)) \<and>
                 m \<noteq> OFF \<and> t = tgt + secondary_offset cfg \<and>
                 (m \<noteq> last_secondary_mode s \<or> Some t \<noteq> last_secondary_temp s)))"
proof (cases "read_temperature h (sensor cfg)")
  case None
  with c show ?thesis by (simp add: apply_temperature_unreadable start_def)
next
  case (Some cur)
  let ?r = "assign (\<lambda>s. s\<lparr>current_temperature := Some cur\<rparr>) (start s)"
  have r [simp]: "calls ?r = []" "last_main_mode (self ?r) = last_main_mode s"
    "last_main_temp (self ?r) = last_main_temp s"
    "last_secondary_mode (self ?r) = last_secondary_mode s"
    "last_secondary_temp (self ?r) = last_secondary_temp s"
    "target_temperature (self ?r) = target_temperature s"
    by (simp_all add: assign_def start_def)
  show ?thesis
  proof (cases "target_temperature s")
    case None
    with Some c have "c \<in> set (calls (andthen (turn_off_main h) (turn_off_secondary cfg h) ?r))"
      by (simp add: apply_temperature_def)
    then have "c \<in> set (calls (turn_off_main h ?r)) \<or>
               c \<in> set (calls (turn_off_secondary cfg h (turn_off_main h ?r)))"
      by (rule calls_andthen)
    then have "(c = Set_hvac_mode Main OFF \<and> last_main_mode s \<noteq> OFF) \<or>
               (c = Set_hvac_mode Secondary OFF \<and> secondary_climate cfg \<noteq> None \<and>
                last_secondary_mode s \<noteq> OFF)"
      by (auto dest!: calls_turn_off_secondary calls_turn_off_main simp add: frame_turn_off_main)
    then show ?thesis by auto
  next
    case tgt: (Some tgt)
    let ?m = "fst (effective_mode_diff cfg h cur tgt)"
    let ?d = "snd (effective_mode_diff cfg h cur tgt)"
    let ?sm = "secondary_effective_mode cfg ?m ?d"
    let ?r1 = "signal_main_mode h ?m ?r"
    let ?r2 = "signal_main_temperature cfg h ?m ?r1"
    let ?sec = "secondary_climate cfg \<noteq> None \<and>
         (?sm \<noteq> last_secondary_mode s \<or> secondary_temp cfg tgt ?sm \<noteq> last_secondary_temp s) \<and>
         (c = Set_hvac_mode Secondary ?sm \<or>
          (?sm \<noteq> OFF \<and> c = Set_temperature Secondary (tgt + secondary_offset cfg)))"
    let ?temp = "?m \<noteq> OFF \<and> c = Set_temperature Main (tgt + primary_offset cfg) \<and>
         last_main_temp s \<noteq> Some (tgt + primary_offset cfg)"
    have t2: "target_temperature (self ?r2) = Some tgt"
      using tgt by (simp add: target_signal_main_temperature target_signal_main_mode)
    have t1: "target_temperature (self ?r1) = Some tgt"
      using tgt by (simp add: target_signal_main_mode)
    from Some tgt c
    have "c \<in> set (calls (andthen (signal_main_mode h ?m)
                  (andthen (signal_main_temperature cfg h ?m)
                  (andthen (signal_secondary cfg h ?m ?d)
                           (record_switch_time ?m (now h)))) ?r))"
      by (simp add: apply_temperature_def Let_def)
    then have "c \<in> set (calls ?r1) \<or> c \<in> set (calls ?r2) \<or>
               c \<in> set (calls (signal_secondary cfg h ?m ?d ?r2))"
      by (auto dest!: calls_andthen simp add: calls_record_switch_time)
    then have "c \<in> set (calls ?r1) \<or> c \<in> set (calls ?r2) \<or> ?sec"
      using t2
      by (auto dest!: calls_signal_secondary
          simp add: frame_signal_main_temperature frame_signal_main_mode)
    then have "c \<in> set (calls ?r1) \<or> ?temp \<or> ?sec"
      using t1 by (auto dest!: calls_signal_main_temperature simp add: frame_signal_main_mode)
    then have "(c = Set_hvac_mode Main ?m \<and> ?m \<noteq> last_main_mode s) \<or> ?temp \<or> ?sec"
      by (auto dest!: calls_signal_main_mode)
    with Some tgt show ?thesis
      by (auto simp add: secondary_temp_def)
  qed
qed

text \<open>
  Both devices heat at target 22; the target is raised to 23 at an indoor reading of 18.
\<close>

theorem commands_only_on_change_witness:
  "Set_temperature Main 24
     \<in> set (calls (apply_temperature example_config (example_hass (Some ''18'') None)
          (start (heating_state\<lparr>target_temperature := Some 23\<rparr>))))
   \<and> Some 24 \<noteq> last_main_temp (heating_state\<lparr>target_temperature := Some 23\<rparr>)
   \<and> Set_hvac_mode Secondary HEAT
     \<in> set (calls (apply_temperature example_config (example_hass (Some ''18'') None)
          (start (heating_state\<lparr>target_temperature := Some 23\<rparr>))))
   \<and> secondary_temp example_config 23 HEAT
     \<noteq> last_secondary_temp (heating_state\<lparr>target_temperature := Some 23\<rparr>)"
proof -
  have calls: "calls (apply_temperature example_config (example_hass (Some ''18'') None)
          (start (heating_state\<lparr>target_temperature := Some 23\<rparr>)))
     = [Set_temperature Main 24, Set_temperature Secondary 23, Set_hvac_mode Secondary HEAT]"
    by (simp add: cycle_eqs example_defs heating_state_def)
  then have "Set_temperature Main 24
     \<in> set (calls (apply_temperature example_config (example_hass (Some ''18'') None)
          (start (heating_state\<lparr>target_temperature := Some 23\<rparr>))))"
    "Set_hvac_mode Secondary HEAT
     \<in> set (calls (apply_temperature example_config (example_hass (Some ''18'') None)
          (start (heating_state\<lparr>target_temperature := Some 23\<rparr>))))"
    by simp_all
  from commands_only_on_change [OF this(1)] commands_only_on_change [OF this(2)] this
  show ?thesis
    by (simp add: heating_state_def)
qed

section \<open>No target temperature\<close>

lemma stranded_state_reached:
  "async_set_preset_mode example_config (example_hass (Some ''unavailable'') None) ''none''
     heating_state
   = \<lparr>self = stranded_state, calls = [], raised = False\<rparr>"
  by (simp add: cycle_eqs example_defs heating_state_def stranded_state_def)

lemma target_absent_cycle:
  assumes "target_temperature s = None" and "read_temperature h (sensor cfg) = Some cur"
  shows "periodic_update cfg h s
       = andthen (turn_off_main h) (turn_off_secondary cfg h)
           (start (s\<lparr>current_temperature := Some cur\<rparr>))"
  using assms by (simp add: periodic_update_def apply_temperature_def assign_def start_def)

lemma quiet_tick:
  assumes "target_temperature s = None" and "last_main_mode s = OFF"
    and "secondary_climate cfg = None \<or> last_secondary_mode s = OFF"
  shows "calls (periodic_update cfg h s) = []
       \<and> target_temperature (self (periodic_update cfg h s)) = None
       \<and> last_main_mode (self (periodic_update cfg h s)) = OFF
       \<and> last_secondary_mode (self (periodic_update cfg h s)) = last_secondary_mode s"
proof (cases "read_temperature h (sensor cfg)")
  case None
  then show ?thesis using assms
    by (simp add: periodic_update_def apply_temperature_unreadable start_def)
next
  case (Some cur)
  show ?thesis
    unfolding target_absent_cycle [OF assms(1) Some]
    using assms
    by (auto simp add: andthen_if turn_off_main_eq turn_off_secondary_eq start_def)
qed

lemma quiet_ticks:
  assumes "target_temperature s = None" and "last_main_mode s = OFF"
    and "secondary_climate cfg = None \<or> last_secondary_mode s = OFF"
  shows "snd (run_events cfg (map (\<lambda>h. (h, Tick)) hs) s) = []"
  using assms
proof (induction hs arbitrary: s)
  case Nil
  then show ?case by simp
next
  case (Cons h hs)
  from quiet_tick [OF Cons.prems, of h]
  have q: "calls (periodic_update cfg h s) = []"
    "target_temperature (self (periodic_update cfg h s)) = None"
    "last_main_mode (self (periodic_update cfg h s)) = OFF"
    "last_secondary_mode (self (periodic_update cfg h s)) = last_secondary_mode s"
    by simp_all
  with Cons.prems(3)
  have "secondary_climate cfg = None \<or> last_secondary_mode (self (periodic_update cfg h s)) = OFF"
    by simp
  from Cons.IH [OF q(2) q(3) this] q(1) show ?case by (simp add: Let_def)
qed

text \<open>
  C7, as stated, fails. Both devices heat when the preset \<^verbatim>\<open>none\<close> is selected while
  the indoor sensor is unavailable: the target becomes absent, and neither that cycle nor
  a following tick (sensor still unavailable) commands any device off.
\<close>

theorem target_absent_counterexample:
  "async_set_preset_mode example_config (example_hass (Some ''unavailable'') None) ''none''
     heating_state
   = \<lparr>self = stranded_state, calls = [], raised = False\<rparr>
   \<and> target_temperature stranded_state = None
   \<and> last_main_mode stranded_state = HEAT
   \<and> last_secondary_mode stranded_state = HEAT
   \<and> periodic_update example_config (example_hass (Some ''unavailable'') None) stranded_state
     = \<lparr>self = stranded_state, calls = [], raised = False\<rparr>"
  by (simp add: cycle_eqs example_defs heating_state_def stranded_state_def)

text \<open>
  C7, amended. In a cycle with no target temperature in which the indoor temperature is
  read and no service call raises, exactly the devices whose last-commanded mode is not
  \<open>OFF\<close> are commanded \<open>OFF\<close> (the main device first; the secondary one only if
  configured), after which both last-commanded modes are \<open>OFF\<close>; and the ticks that
  follow while the target stays absent, whatever the sensors read and whether or not
  calls would raise, attempt no service call at all.
\<close>

theorem target_absent_turns_off_once:
  assumes "target_temperature s = None"
    and "read_temperature h (sensor cfg) = Some cur"
    and "\<not> raised (periodic_update cfg h s)"
  shows "calls (periodic_update cfg h s)
           = (if last_main_mode s \<noteq> OFF then [Set_hvac_mode Main OFF] else [])
             @ (if secondary_climate cfg \<noteq> None \<and> last_secondary_mode s \<noteq> OFF
                then [Set_hvac_mode Secondary OFF] else [])
       \<and> last_main_mode (self (periodic_update cfg h s)) = OFF
       \<and> (secondary_climate cfg = None
          \<or> last_secondary_mode (self (periodic_update cfg h s)) = OFF)
       \<and> target_temperature (self (periodic_update cfg h s)) = None
       \<and> snd (run_events cfg (map (\<lambda>h'. (h', Tick)) hs) (self (periodic_update cfg h s))) = []"
proof -
  let ?r = "periodic_update cfg h s"
  have r: "?r = andthen (turn_off_main h) (turn_off_secondary cfg h)
                  (start (s\<lparr>current_temperature := Some cur\<rparr>))"
    using assms(1,2) by (rule target_absent_cycle)
  have calls: "calls ?r
           = (if last_main_mode s \<noteq> OFF then [Set_hvac_mode Main OFF] else [])
             @ (if secondary_climate cfg \<noteq> None \<and> last_secondary_mode s \<noteq> OFF
                then [Set_hvac_mode Secondary OFF] else [])"
    using assms(3) unfolding r
    by (auto simp add: andthen_if turn_off_main_eq turn_off_secondary_eq start_def
        split: if_splits)
  have main: "last_main_mode (self ?r) = OFF"
    using assms(3) unfolding r
    by (auto simp add: andthen_if turn_off_main_eq turn_off_secondary_eq start_def
        split: if_splits)
  have sec: "secondary_climate cfg = None \<or> last_secondary_mode (self ?r) = OFF"
    using assms(3) unfolding r
    by (auto simp add: andthen_if turn_off_main_eq turn_off_secondary_eq start_def
        split: if_splits)
  have tgt: "target_temperature (self ?r) = None"
    using assms(1) by (simp add: periodic_update_def target_apply_temperature start_def)
  from calls main sec tgt quiet_ticks [OF tgt main sec, of hs] show ?thesis by simp
qed

text \<open>
  The stranded instance of the counterexample, once the indoor sensor reads again: one
  tick turns both devices off, two more ticks send nothing.
\<close>

theorem target_absent_turns_off_once_witness:
  "calls (periodic_update example_config (example_hass (Some ''18'') None) stranded_state)
     = [Set_hvac_mode Main OFF, Set_hvac_mode Secondary OFF]
   \<and> snd (run_events example_config
        [(example_hass (Some ''18'') None, Tick), (example_hass (Some ''20'') None, Tick)]
        (self (periodic_update example_config (example_hass (Some ''18'') None) stranded_state)))
     = []"
proof -
  have "target_temperature stranded_state = None"
    "read_temperature (example_hass (Some ''18'') None) (sensor example_config) = Some 18"
    "\<not> raised (periodic_update example_config (example_hass (Some ''18'') None) stranded_state)"
    by (simp_all add: cycle_eqs example_defs heating_state_def stranded_state_def)
  from target_absent_turns_off_once [OF this,
      of "[example_hass (Some ''18'') None, example_hass (Some ''20'') None]"]
  show ?thesis by (simp add: example_config_def heating_state_def stranded_state_def)
qed

section \<open>A service call that raises\<close>

text \<open>
  The source has no \<^verbatim>\<open>try\<close> around \<^verbatim>\<open>hass.services.async_call\<close>: an exception
  raised there ends the cycle at that call and leaves the handler. The assignment to the
  last-commanded field follows the call, so it is not reached.
\<close>

lemma off_retry:
  assumes "raised (andthen (turn_off_main h) (turn_off_secondary cfg h) (start s0))"
    and "\<forall>c. c \<noteq> last (calls (andthen (turn_off_main h) (turn_off_secondary cfg h) (start s0)))
           \<longrightarrow> \<not> call_raises h' c"
  shows "calls (andthen (turn_off_main h) (turn_off_secondary cfg h) (start s0)) \<noteq> []
       \<and> call_raises h (last (calls (andthen (turn_off_main h) (turn_off_secondary cfg h) (start s0))))
       \<and> (case last (calls (andthen (turn_off_main h) (turn_off_secondary cfg h) (start s0))) of
            Set_hvac_mode Main m \<Rightarrow>
              last_main_mode (self (andthen (turn_off_main h) (turn_off_secondary cfg h) (start s0)))
                = last_main_mode s0 \<and> last_main_mode s0 \<noteq> m
          | Set_temperature Main t \<Rightarrow>
              last_main_temp (self (andthen (turn_off_main h) (turn_off_secondary cfg h) (start s0)))
                = last_main_temp s0 \<and> last_main_temp s0 \<noteq> Some t
          | Set_hvac_mode Secondary m \<Rightarrow>
              last_secondary_mode (self (andthen (turn_off_main h) (turn_off_secondary cfg h) (start s0)))
                = last_secondary_mode s0
              \<and> last_secondary_temp (self (andthen (turn_off_main h) (turn_off_secondary cfg h) (start s0)))
                = last_secondary_temp s0
          | Set_temperature Secondary t \<Rightarrow>
              last_secondary_mode (self (andthen (turn_off_main h) (turn_off_secondary cfg h) (start s0)))
                = last_secondary_mode s0
              \<and> last_secondary_temp (self (andthen (turn_off_main h) (turn_off_secondary cfg h) (start s0)))
                = last_secondary_temp s0)
       \<and> last (calls (andthen (turn_off_main h) (turn_off_secondary cfg h) (start s0)))
           \<in> set (calls (andthen (turn_off_main h') (turn_off_secondary cfg h')
                (start (self (andthen (turn_off_main h) (turn_off_secondary cfg h) (start s0))))))"
  using assms
  by (auto simp add: andthen_if turn_off_main_eq turn_off_secondary_eq start_def
      split: if_splits)

lemma andthen_skip: "f r = r \<Longrightarrow> \<not> raised r \<Longrightarrow> andthen f g r = g r"
  by (simp add: andthen_if)

lemma andthen_grows:
  assumes "c \<in> set (calls (f r))" and "\<And>r. c \<in> set (calls r) \<Longrightarrow> c \<in> set (calls (g r))"
  shows "c \<in> set (calls (andthen f g r))"
  using assms by (simp add: andthen_if)

lemma grows_steps:
  "c \<in> set (calls r) \<Longrightarrow> c \<in> set (calls (signal_main_temperature cfg h m r))"
  "c \<in> set (calls r) \<Longrightarrow> c \<in> set (calls (signal_secondary cfg h m d r))"
  "c \<in> set (calls r) \<Longrightarrow> c \<in> set (calls (record_switch_time m t r))"
  by (simp_all add: signal_main_temperature_eq signal_secondary_eq record_switch_time_def
      assign_def Let_def split: option.splits)

text \<open>The main mode step: when it raises, what it leaves, when it is skipped.\<close>

lemma raised_signal_main_mode:
  assumes "raised (signal_main_mode h m r)" and "\<not> raised r"
  shows "m \<noteq> last_main_mode (self r) \<and> call_raises h (Set_hvac_mode Main m)
       \<and> signal_main_mode h m r = r\<lparr>calls := calls r @ [Set_hvac_mode Main m], raised := True\<rparr>"
  using assms by (auto simp add: signal_main_mode_eq split: if_splits)

lemma done_signal_main_mode:
  "\<not> raised (signal_main_mode h m r) \<Longrightarrow> last_main_mode (self (signal_main_mode h m r)) = m"
  by (auto simp add: signal_main_mode_eq split: if_splits)

lemma skip_signal_main_mode: "last_main_mode (self r) = m \<Longrightarrow> signal_main_mode h m r = r"
  by (simp add: signal_main_mode_eq)

lemma issue_signal_main_mode:
  "last_main_mode (self r) \<noteq> m \<Longrightarrow> Set_hvac_mode Main m \<in> set (calls (signal_main_mode h m r))"
  by (auto simp add: signal_main_mode_eq)

text \<open>The main setpoint step.\<close>

lemma raised_signal_main_temperature:
  assumes "raised (signal_main_temperature cfg h m r)" and "\<not> raised r"
    and "target_temperature (self r) = Some tgt"
  shows "m \<noteq> OFF \<and> last_main_temp (self r) \<noteq> Some (tgt + primary_offset cfg)
       \<and> call_raises h (Set_temperature Main (tgt + primary_offset cfg))
       \<and> signal_main_temperature cfg h m r
         = r\<lparr>calls := calls r @ [Set_temperature Main (tgt + primary_offset cfg)], raised := True\<rparr>"
  using assms by (auto simp add: signal_main_temperature_eq split: if_splits)

lemma done_signal_main_temperature:
  assumes "\<not> raised (signal_main_temperature cfg h m r)"
    and "target_temperature (self r) = Some tgt"
  shows "m = OFF \<or> last_main_temp (self (signal_main_temperature cfg h m r))
           = Some (tgt + primary_offset cfg)"
  using assms by (auto simp add: signal_main_temperature_eq split: if_splits)

lemma skip_signal_main_temperature:
  assumes "target_temperature (self r) = Some tgt"
    and "m = OFF \<or> last_main_temp (self r) = Some (tgt + primary_offset cfg)"
  shows "signal_main_temperature cfg h m r = r"
  using assms by (auto simp add: signal_main_temperature_eq)

lemma issue_signal_main_temperature:
  assumes "target_temperature (self r) = Some tgt" and "m \<noteq> OFF"
    and "last_main_temp (self r) \<noteq> Some (tgt + primary_offset cfg)"
  shows "Set_temperature Main (tgt + primary_offset cfg)
           \<in> set (calls (signal_main_temperature cfg h m r))"
  using assms by (auto simp add: signal_main_temperature_eq)

text \<open>The secondary step.\<close>

lemma raised_signal_secondary:
  assumes "raised (signal_secondary cfg h m d r)" and "\<not> raised r"
  shows "self (signal_secondary cfg h m d r) = self r
       \<and> calls (signal_secondary cfg h m d r) \<noteq> []
       \<and> call_raises h (last (calls (signal_secondary cfg h m d r)))
       \<and> call_device (last (calls (signal_secondary cfg h m d r))) = Secondary"
  using assms by (auto simp add: signal_secondary_eq Let_def split: if_splits)

lemma retry_signal_secondary:
  assumes "raised (signal_secondary cfg h m d r)" and "\<not> raised r"
    and "self r' = self r"
    and "\<forall>c. c \<noteq> last (calls (signal_secondary cfg h m d r)) \<longrightarrow> \<not> call_raises h' c"
  shows "last (calls (signal_secondary cfg h m d r)) \<in> set (calls (signal_secondary cfg h' m d r'))"
  using assms by (auto simp add: signal_secondary_eq Let_def split: if_splits)

lemma start_simps: "self (start s) = s" "calls (start s) = []" "raised (start s) = False"
  by (simp_all add: start_def)

lemma chain_retry:
  fixes cfg :: config and h h' :: hass and m :: hvac_mode and d :: real and s0 :: controller
  defines "run1 \<equiv> andthen (signal_main_mode h m)
                  (andthen (signal_main_temperature cfg h m)
                  (andthen (signal_secondary cfg h m d)
                           (record_switch_time m (now h)))) (start s0)"
  defines "run2 \<equiv> andthen (signal_main_mode h' m)
                  (andthen (signal_main_temperature cfg h' m)
                  (andthen (signal_secondary cfg h' m d)
                           (record_switch_time m (now h')))) (start (self run1))"
  assumes tgt: "target_temperature s0 = Some tgt"
    and raised: "raised run1"
    and others: "\<forall>c. c \<noteq> last (calls run1) \<longrightarrow> \<not> call_raises h' c"
  shows "calls run1 \<noteq> []
       \<and> call_raises h (last (calls run1))
       \<and> (case last (calls run1) of
            Set_hvac_mode Main x \<Rightarrow>
              last_main_mode (self run1) = last_main_mode s0 \<and> last_main_mode s0 \<noteq> x
          | Set_temperature Main x \<Rightarrow>
              last_main_temp (self run1) = last_main_temp s0 \<and> last_main_temp s0 \<noteq> Some x
          | Set_hvac_mode Secondary x \<Rightarrow>
              last_secondary_mode (self run1) = last_secondary_mode s0
              \<and> last_secondary_temp (self run1) = last_secondary_temp s0
          | Set_temperature Secondary x \<Rightarrow>
              last_secondary_mode (self run1) = last_secondary_mode s0
              \<and> last_secondary_temp (self run1) = last_secondary_temp s0)
       \<and> last (calls run1) \<in> set (calls run2)"
proof -
  let ?r0 = "start s0"
  let ?a1 = "signal_main_mode h m ?r0"
  let ?a2 = "signal_main_temperature cfg h m ?a1"
  let ?a3 = "signal_secondary cfg h m d ?a2"
  have r0: "\<not> raised ?r0" "self ?r0 = s0" "calls ?r0 = []"
    by (simp_all add: start_def)
  have run1: "run1 = (if raised ?a1 then ?a1 else if raised ?a2 then ?a2
                      else if raised ?a3 then ?a3 else record_switch_time m (now h) ?a3)"
    by (simp add: run1_def andthen_if)
  have tail: "c \<in> set (calls (f r)) \<Longrightarrow>
      c \<in> set (calls (andthen f (andthen (signal_secondary cfg h' m d)
                       (record_switch_time m (now h'))) r))" for c f r
    by (intro andthen_grows grows_steps) 
  have s': "\<not> raised (start (self run1))" "self (start (self run1)) = self run1"
    by (simp_all add: start_def)
  consider (A) "raised ?a1"
    | (B) "\<not> raised ?a1" "raised ?a2"
    | (C) "\<not> raised ?a1" "\<not> raised ?a2" "raised ?a3"
    using raised by (auto simp add: run1 record_switch_time_def assign_def split: if_splits)
  then show ?thesis
  proof cases
    case A
    from raised_signal_main_mode [OF A r0(1)]
    have a: "m \<noteq> last_main_mode s0" "call_raises h (Set_hvac_mode Main m)"
      "?a1 = ?r0\<lparr>calls := calls ?r0 @ [Set_hvac_mode Main m], raised := True\<rparr>"
      by (simp_all add: r0)
    from A have eq: "run1 = ?a1" by (simp add: run1)
    have last: "last (calls run1) = Set_hvac_mode Main m" "calls run1 \<noteq> []" "self run1 = s0"
      unfolding eq by (subst a(3), simp add: r0)+
    have "Set_hvac_mode Main m \<in> set (calls (signal_main_mode h' m (start (self run1))))"
      using a(1) by (intro issue_signal_main_mode) (auto simp add: start_simps last)
    then have "Set_hvac_mode Main m \<in> set (calls run2)"
      unfolding run2_def
      by (intro andthen_grows grows_steps)
    with a last show ?thesis by simp
  next
    case B
    have t1: "target_temperature (self ?a1) = Some tgt"
      using tgt by (simp add: target_signal_main_mode r0)
    from raised_signal_main_temperature [OF B(2) B(1) t1]
    have b: "m \<noteq> OFF" "last_main_temp (self ?a1) \<noteq> Some (tgt + primary_offset cfg)"
      "call_raises h (Set_temperature Main (tgt + primary_offset cfg))"
      "?a2 = ?a1\<lparr>calls := calls ?a1 @ [Set_temperature Main (tgt + primary_offset cfg)],
                  raised := True\<rparr>"
      by simp_all
    from B have eq: "run1 = ?a2" by (simp add: run1)
    have last: "last (calls run1) = Set_temperature Main (tgt + primary_offset cfg)"
      "calls run1 \<noteq> []" "self run1 = self ?a1"
      unfolding eq by (subst b(4), simp)+
    have temp: "last_main_temp (self ?a1) = last_main_temp s0"
      by (simp add: frame_signal_main_mode r0)
    have mode: "last_main_mode (self ?a1) = m"
      using B(1) by (rule done_signal_main_mode)
    have skip1: "signal_main_mode h' m (start (self run1)) = start (self run1)"
      by (rule skip_signal_main_mode) (auto simp add: start_simps last mode)
    have "Set_temperature Main (tgt + primary_offset cfg)
            \<in> set (calls (signal_main_temperature cfg h' m (start (self run1))))"
      using b(1,2) t1 by (intro issue_signal_main_temperature) (auto simp add: start_simps last)
    then have "Set_temperature Main (tgt + primary_offset cfg) \<in> set (calls run2)"
      unfolding run2_def andthen_skip [where f = "signal_main_mode h' m" and r = "start (self run1)", OF skip1 s'(1)]
      by (rule tail)
    with b last temp show ?thesis by simp
  next
    case C
    have t1: "target_temperature (self ?a1) = Some tgt"
      using tgt by (simp add: target_signal_main_mode r0)
    have t2: "target_temperature (self ?a2) = Some tgt"
      using t1 by (simp add: target_signal_main_temperature)
    from raised_signal_secondary [OF C(3) C(2)]
    have c: "self ?a3 = self ?a2" "calls ?a3 \<noteq> []" "call_raises h (last (calls ?a3))"
      "call_device (last (calls ?a3)) = Secondary"
      by simp_all
    from C have eq: "run1 = ?a3" by (simp add: run1)
    have sec: "last_secondary_mode (self ?a2) = last_secondary_mode s0"
      "last_secondary_temp (self ?a2) = last_secondary_temp s0"
      by (simp_all add: frame_signal_main_temperature frame_signal_main_mode r0)
    have mode: "last_main_mode (self ?a2) = m"
      using done_signal_main_mode [OF C(1)] by (simp add: frame_signal_main_temperature)
    have temp: "m = OFF \<or> last_main_temp (self ?a2) = Some (tgt + primary_offset cfg)"
      using C(2) t1 by (rule done_signal_main_temperature)
    have skip1: "signal_main_mode h' m (start (self run1)) = start (self run1)"
      by (rule skip_signal_main_mode) (auto simp add: start_simps eq c mode)
    have skip2: "signal_main_temperature cfg h' m (start (self run1)) = start (self run1)"
      using temp t2 by (intro skip_signal_main_temperature) (auto simp add: start_simps eq c)
    have "last (calls ?a3) \<in> set (calls (signal_secondary cfg h' m d (start (self run1))))"
      using C(3) C(2) _ others [unfolded eq]
      by (rule retry_signal_secondary) (auto simp add: start_simps eq c)
    then have "last (calls ?a3) \<in> set (calls run2)"
      unfolding run2_def
        andthen_skip [where f = "signal_main_mode h' m" and r = "start (self run1)",
          OF skip1 s'(1)]
        andthen_skip [where f = "signal_main_temperature cfg h' m" and r = "start (self run1)",
          OF skip2 s'(1)]
      by (rule andthen_grows) (rule grows_steps(3))
    with c sec show ?thesis
      unfolding eq by (cases "last (calls ?a3)") (auto simp add: c(1))
  qed
qed

lemma current_apply_temperature:
  assumes "read_temperature h (sensor cfg) = Some cur"
  shows "current_temperature (self (apply_temperature cfg h r)) = Some cur"
proof -
  let ?P = "\<lambda>r. current_temperature (self r)"
  let ?r = "assign (\<lambda>s. s\<lparr>current_temperature := Some cur\<rparr>) r"
  have r: "?P ?r = Some cur" by (simp add: assign_def)
  have steps: "?P (turn_off_main h x) = ?P x" "?P (turn_off_secondary cfg h x) = ?P x"
    "?P (signal_main_mode h m x) = ?P x" "?P (signal_main_temperature cfg h m x) = ?P x"
    "?P (signal_secondary cfg h m d x) = ?P x" "?P (record_switch_time m t x) = ?P x"
    for x m d t
    by (simp_all add: turn_off_main_eq turn_off_secondary_eq signal_main_mode_eq
        signal_main_temperature_eq signal_secondary_eq record_switch_time_def assign_def Let_def
        split: option.splits)
  show ?thesis
  proof (cases "target_temperature (self ?r)")
    case None
    have "?P (andthen (turn_off_main h) (turn_off_secondary cfg h) ?r) = ?P ?r"
      by (rule andthen_keeps) (rule steps)+
    with assms None r show ?thesis by (simp add: apply_temperature_def)
  next
    case (Some tgt)
    have "?P (andthen (signal_main_mode h m)
             (andthen (signal_main_temperature cfg h m)
             (andthen (signal_secondary cfg h m d) (record_switch_time m t))) ?r) = ?P ?r"
      for m d t
      by (intro andthen_keeps steps)
    with assms Some r show ?thesis by (simp add: apply_temperature_def Let_def)
  qed
qed

lemma apply_temperature_absent:
  assumes "read_temperature h (sensor cfg) = Some cur" and "target_temperature (self r) = None"
  shows "apply_temperature cfg h r
       = andthen (turn_off_main h) (turn_off_secondary cfg h)
           (assign (\<lambda>s. s\<lparr>current_temperature := Some cur\<rparr>) r)"
  using assms by (simp add: apply_temperature_def assign_def)

lemma apply_temperature_present:
  assumes "read_temperature h (sensor cfg) = Some cur" and "target_temperature (self r) = Some tgt"
  shows "apply_temperature cfg h r
       = andthen (signal_main_mode h (fst (effective_mode_diff cfg h cur tgt)))
          (andthen (signal_main_temperature cfg h (fst (effective_mode_diff cfg h cur tgt)))
          (andthen (signal_secondary cfg h (fst (effective_mode_diff cfg h cur tgt))
                      (snd (effective_mode_diff cfg h cur tgt)))
                   (record_switch_time (fst (effective_mode_diff cfg h cur tgt)) (now h))))
           (assign (\<lambda>s. s\<lparr>current_temperature := Some cur\<rparr>) r)"
  using assms by (simp add: apply_temperature_def assign_def Let_def)

text \<open>
  C10, as stated, fails. On a host where the call that sets the main device to \<open>HEAT\<close>
  raises, a manual setpoint of 22 at an indoor reading of 18 ends with the exception
  propagating out of the handler (\<open>raised\<close>), after that single call: the setpoint of
  the main device and both commands of the secondary device are not attempted.
\<close>

theorem failed_command_counterexample:
  "async_set_temperature example_config (failing_hass (Set_hvac_mode Main HEAT)) (Some 22)
     (init example_config 0)
   = \<lparr>self = (init example_config 0)
              \<lparr>target_temperature := Some 22, current_temperature := Some 18\<rparr>,
      calls = [Set_hvac_mode Main HEAT],
      raised = True\<rparr>"
  by (simp add: cycle_eqs example_defs failing_hass_def)

text \<open>
  C10, amended. When a service call raises during a cycle, the exception leaves the
  handler at that call (the last call attempted), and the last-commanded field that
  belongs to the failed command keeps the value it had before the cycle: the main mode
  for a main mode command, the main setpoint for a main setpoint command, the secondary
  mode and setpoint for either secondary command. A next cycle on the state left behind,
  with the same sensor states (hence the same decision, the target being unchanged) and
  in which no other call raises, attempts the same call again.
\<close>

theorem failed_command_is_retried:
  assumes raised: "raised (apply_temperature cfg h (start s))"
    and states: "states h' = states h"
    and float: "to_float h' = to_float h"
    and others: "\<forall>c. c \<noteq> last (calls (apply_temperature cfg h (start s)))
                   \<longrightarrow> \<not> call_raises h' c"
  shows "calls (apply_temperature cfg h (start s)) \<noteq> []
       \<and> call_raises h (last (calls (apply_temperature cfg h (start s))))
       \<and> (case last (calls (apply_temperature cfg h (start s))) of
            Set_hvac_mode Main x \<Rightarrow>
              last_main_mode (self (apply_temperature cfg h (start s))) = last_main_mode s
              \<and> last_main_mode s \<noteq> x
          | Set_temperature Main x \<Rightarrow>
              last_main_temp (self (apply_temperature cfg h (start s))) = last_main_temp s
              \<and> last_main_temp s \<noteq> Some x
          | Set_hvac_mode Secondary x \<Rightarrow>
              last_secondary_mode (self (apply_temperature cfg h (start s))) = last_secondary_mode s
              \<and> last_secondary_temp (self (apply_temperature cfg h (start s)))
                = last_secondary_temp s
          | Set_temperature Secondary x \<Rightarrow>
              last_secondary_mode (self (apply_temperature cfg h (start s))) = last_secondary_mode s
              \<and> last_secondary_temp (self (apply_temperature cfg h (start s)))
                = last_secondary_temp s)
       \<and> last (calls (apply_temperature cfg h (start s)))
           \<in> set (calls (apply_temperature cfg h' (start (self (apply_temperature cfg h (start s))))))"
proof -
  let ?run1 = "apply_temperature cfg h (start s)"
  obtain cur where cur: "read_temperature h (sensor cfg) = Some cur"
    using raised
    by (cases "read_temperature h (sensor cfg)")
      (simp_all add: apply_temperature_unreadable start_def)
  have read': "read_temperature h' e = read_temperature h e" for e
    using states float by (simp add: read_temperature_def split: option.splits)
  let ?s0 = "s\<lparr>current_temperature := Some cur\<rparr>"
  have s0: "assign (\<lambda>s. s\<lparr>current_temperature := Some cur\<rparr>) (start s) = start ?s0"
    by (simp add: assign_def start_def)
  have "current_temperature (self ?run1) = Some cur"
    using cur by (rule current_apply_temperature)
  then have "(self ?run1)\<lparr>current_temperature := Some cur\<rparr> = self ?run1"
    by (cases "self ?run1") simp
  then have s1: "assign (\<lambda>s. s\<lparr>current_temperature := Some cur\<rparr>) (start (self ?run1))
      = start (self ?run1)"
    by (simp add: assign_def start_def)
  have t1: "target_temperature (self ?run1) = target_temperature s"
    by (simp add: target_apply_temperature start_def)
  have fields: "last_main_mode ?s0 = last_main_mode s" "last_main_temp ?s0 = last_main_temp s"
    "last_secondary_mode ?s0 = last_secondary_mode s"
    "last_secondary_temp ?s0 = last_secondary_temp s"
    by simp_all
  show ?thesis
  proof (cases "target_temperature s")
    case None
    let ?off = "\<lambda>h. andthen (turn_off_main h) (turn_off_secondary cfg h)"
    have cur': "read_temperature h' (sensor cfg) = Some cur"
      using cur by (simp add: read')
    have run1: "?run1 = ?off h (start ?s0)"
      using apply_temperature_absent [OF cur, of "start s"] None
      by (simp add: s0 start_simps)
    have "target_temperature (self (start (self ?run1))) = None"
      using None t1 by (simp add: start_simps)
    from apply_temperature_absent [OF cur' this]
    have run2: "apply_temperature cfg h' (start (self ?run1)) = ?off h' (start (self ?run1))"
      by (simp only: s1)
    from off_retry [of h cfg ?s0 h'] raised others
    show ?thesis
      unfolding run2 unfolding run1 fields by simp
  next
    case (Some tgt)
    let ?m = "fst (effective_mode_diff cfg h cur tgt)"
    let ?d = "snd (effective_mode_diff cfg h cur tgt)"
    let ?chain = "\<lambda>h. andthen (signal_main_mode h ?m)
                  (andthen (signal_main_temperature cfg h ?m)
                  (andthen (signal_secondary cfg h ?m ?d)
                           (record_switch_time ?m (now h))))"
    have emd: "effective_mode_diff cfg h' cur tgt = effective_mode_diff cfg h cur tgt"
      by (simp add: effective_mode_diff_def cooling_mode_def read' split: option.splits)
    have cur': "read_temperature h' (sensor cfg) = Some cur"
      using cur by (simp add: read')
    have run1: "?run1 = ?chain h (start ?s0)"
      using apply_temperature_present [OF cur, of "start s" tgt] Some
      by (simp add: s0 start_simps)
    have "target_temperature (self (start (self ?run1))) = Some tgt"
      using Some t1 by (simp add: start_simps)
    from apply_temperature_present [OF cur' this]
    have run2: "apply_temperature cfg h' (start (self ?run1)) = ?chain h' (start (self ?run1))"
      by (simp only: s1 emd)
    have tgt0: "target_temperature ?s0 = Some tgt" using Some by simp
    from chain_retry [of ?s0 tgt h ?m cfg ?d h', OF tgt0] raised others
    show ?thesis
      unfolding run2 unfolding run1 fields by simp
  qed
qed

text \<open>
  The call that sets the secondary device to \<open>HEAT\<close> raises; the next cycle, on a host
  whose calls succeed, sends it again.
\<close>

theorem failed_command_is_retried_witness:
  "calls (apply_temperature example_config (failing_hass (Set_hvac_mode Secondary HEAT))
      (start ((init example_config 0)\<lparr>target_temperature := Some 22\<rparr>)))
     = [Set_hvac_mode Main HEAT, Set_temperature Main 23,
        Set_temperature Secondary 22, Set_hvac_mode Secondary HEAT]
   \<and> raised (apply_temperature example_config (failing_hass (Set_hvac_mode Secondary HEAT))
      (start ((init example_config 0)\<lparr>target_temperature := Some 22\<rparr>)))
   \<and> last_secondary_mode (self (apply_temperature example_config
      (failing_hass (Set_hvac_mode Secondary HEAT))
      (start ((init example_config 0)\<lparr>target_temperature := Some 22\<rparr>)))) = OFF
   \<and> Set_hvac_mode Secondary HEAT
     \<in> set (calls (apply_temperature example_config (example_hass (Some ''18'') None)
          (start (self (apply_temperature example_config
            (failing_hass (Set_hvac_mode Secondary HEAT))
            (start ((init example_config 0)\<lparr>target_temperature := Some 22\<rparr>)))))))"
proof -
  let ?s = "(init example_config 0)\<lparr>target_temperature := Some 22\<rparr>"
  let ?h = "failing_hass (Set_hvac_mode Secondary HEAT)"
  let ?h' = "example_hass (Some ''18'') None"
  have run1: "apply_temperature example_config ?h (start ?s)
      = \<lparr>self = ?s\<lparr>current_temperature := Some 18, last_main_mode := HEAT,
                    last_main_temp := Some 23\<rparr>,
         calls = [Set_hvac_mode Main HEAT, Set_temperature Main 23,
                  Set_temperature Secondary 22, Set_hvac_mode Secondary HEAT],
         raised = True\<rparr>"
    by (simp add: cycle_eqs example_defs failing_hass_def)
  have hyps: "raised (apply_temperature example_config ?h (start ?s))"
    "states ?h' = states ?h" "to_float ?h' = to_float ?h"
    "\<forall>c. c \<noteq> last (calls (apply_temperature example_config ?h (start ?s)))
        \<longrightarrow> \<not> call_raises ?h' c"
    by (simp_all add: run1) (simp_all add: failing_hass_def example_hass_def)
  from failed_command_is_retried [OF hyps] show ?thesis
    unfolding run1 by (simp add: init_def)
qed

end
